theory Spec2Isabelle
  imports Main "HOL-Library.Sublist"
begin

section \<open>Python strings and values\<close>

text \<open>
  A Python \<open>str\<close> is modelled by its UTF-8 encoding, a \<^typ>\<open>string\<close> of bytes: the
  encoding that \<open>read_text\<close> and \<open>write_text\<close> are given. Concatenation, equality,
  \<open>join\<close>, \<open>split\<close> and the substring test are the same on the encoding as on the
  characters. The operations that count characters (\<open>len\<close> and the slices \<open>s[:n]\<close>) are
  defined on the encoding below. \<open>str.upper\<close> follows the case mapping of Unicode, which
  is not written out here: it is a function \<open>str_upper\<close> supplied by the environment,
  and every statement holds for every such function. On a text of ASCII characters it
  is \<open>ascii_upper\<close>, which the concrete worlds of the examples use.
\<close>

definition ascii_upper_char :: "char \<Rightarrow> char" where
  "ascii_upper_char c =
     (case map_of (zip ''abcdefghijklmnopqrstuvwxyz'' ''ABCDEFGHIJKLMNOPQRSTUVWXYZ'') c of
        Some u \<Rightarrow> u
      | None \<Rightarrow> c)"

definition ascii_upper :: "string \<Rightarrow> string" where
  "ascii_upper s = map ascii_upper_char s"

text \<open>
  A byte \<open>10xxxxxx\<close> continues a character; every other byte starts one. \<open>py_len\<close> is
  \<open>len(s)\<close>, the number of characters, and \<open>py_take n s\<close> is the slice \<open>s[:n]\<close>, the first
  \<open>n\<close> characters (all of \<open>s\<close> when it has fewer).
\<close>

definition is_continuation :: "char \<Rightarrow> bool" where
  "is_continuation c = (digit7 c \<and> \<not> digit6 c)"

definition py_len :: "string \<Rightarrow> nat" where
  "py_len s = length (filter (\<lambda>c. \<not> is_continuation c) s)"

fun py_take :: "nat \<Rightarrow> string \<Rightarrow> string" where
  "py_take n [] = []"
| "py_take n (c # cs) =
     (if is_continuation c then c # py_take n cs
      else (case n of 0 \<Rightarrow> [] | Suc m \<Rightarrow> c # py_take m cs))"

text \<open>The substring test \<open>sub in s\<close>.\<close>

fun str_in :: "string \<Rightarrow> string \<Rightarrow> bool" where
  "str_in sub [] = (sub = [])"
| "str_in sub (c # cs) = (prefix sub (c # cs) \<or> str_in sub cs)"

text \<open>\<open>sep.join(xs)\<close>.\<close>

fun join :: "string \<Rightarrow> string list \<Rightarrow> string" where
  "join sep [] = []"
| "join sep [x] = x"
| "join sep (x # y # ys) = x @ sep @ join sep (y # ys)"

text \<open>\<open>s.split(sep)\<close> for a one-character separator; the result is never empty.\<close>

fun split_char :: "char \<Rightarrow> string \<Rightarrow> string list" where
  "split_char sep [] = [[]]"
| "split_char sep (c # cs) =
     (if c = sep then [] # split_char sep cs
      else (case split_char sep cs of
              [] \<Rightarrow> [[c]]
            | x # xs \<Rightarrow> (c # x) # xs))"

text \<open>\<open>str(n)\<close> for a non-negative integer, as the f-strings format \<open>i+1\<close>.\<close>

function str_nat :: "nat \<Rightarrow> string" where
  "str_nat n =
     (if n < 10 then [''0123456789'' ! n]
      else str_nat (n div 10) @ [''0123456789'' ! (n mod 10)])"
  by pat_completeness auto
termination
  by (relation "measure id") auto

declare str_nat.simps [simp del]

text \<open>
  An exception object; \<open>str_exn\<close> is \<open>str(e)\<close>, which the f-string \<open>{e}\<close> formats. The
  failures of a request (transport error, error status, malformed body, timeout) are all
  subclasses of \<open>Exception\<close>, which is what the handlers of the program catch.
\<close>

datatype exn = Exception string

fun str_exn :: "exn \<Rightarrow> string" where
  "str_exn (Exception msg) = msg"

text \<open>The values stored in the dictionary that a run returns.\<close>

datatype pyval = PyBool bool | PyStr string

section \<open>Configuration: the module-level globals\<close>

text \<open>
  A reviewer is a dictionary with the keys \<open>model\<close> and \<open>persona\<close> and, for the added
  reviewers of \<open>trial_by_hex_plus.py\<close>, \<open>name\<close>. The globals \<open>OPENROUTER_API_KEY\<close>
  (\<open>os.environ.get\<close>: \<open>None\<close> when unset), \<open>REVIEWERS\<close> and \<open>FALLBACK_MODELS\<close> are read by
  the functions below; they are collected in a record that the functions take, so that
  the statements hold for every panel and every fallback list.
\<close>

record reviewer =
  r_model :: string
  r_persona :: string
  r_name :: "string option"

record config =
  OPENROUTER_API_KEY :: "string option"
  REVIEWERS :: "reviewer list"
  FALLBACK_MODELS :: "string list"

text \<open>
  The panel and the fallback list of \<open>trial_by_hex.py\<close>; the panel is also the
  \<open>ORIGINAL_REVIEWERS\<close> of \<open>trial_by_hex_plus.py\<close>, and the fallback list is the same
  in both scripts.
\<close>

definition HEX_REVIEWERS :: "reviewer list" where
  "HEX_REVIEWERS =
     [\<lparr>r_model = ''anthropic/claude-sonnet-4.5'',
       r_persona = ''technical specialist focused on methodology and rigor'',
       r_name = None\<rparr>,
      \<lparr>r_model = ''openai/gpt-5.1'',
       r_persona = ''skeptical critic looking for weaknesses and logical gaps'',
       r_name = None\<rparr>,
      \<lparr>r_model = ''google/gemini-3-pro-preview'',
       r_persona = ''constructive reviewer focused on practical improvement'',
       r_name = None\<rparr>,
      \<lparr>r_model = ''x-ai/grok-4.1-fast:free'',
       r_persona = ''accessibility reviewer checking clarity for general audience'',
       r_name = None\<rparr>,
      \<lparr>r_model = ''deepseek/deepseek-chat-v3.1'',
       r_persona = ''literature reviewer checking connections to existing work'',
       r_name = None\<rparr>,
      \<lparr>r_model = ''openai/gpt-5-mini'',
       r_persona = ''experimental design and reproducibility reviewer'',
       r_name = None\<rparr>]"

definition HEX_FALLBACK_MODELS :: "string list" where
  "HEX_FALLBACK_MODELS =
     [''x-ai/grok-4.1-fast:free'', ''anthropic/claude-haiku-4.5'', ''openai/gpt-5-nano'']"

definition hex_config :: "string option \<Rightarrow> config" where
  "hex_config key =
     \<lparr>OPENROUTER_API_KEY = key, REVIEWERS = HEX_REVIEWERS,
      FALLBACK_MODELS = HEX_FALLBACK_MODELS\<rparr>"

section \<open>The outside world\<close>

text \<open>
  A request is what \<open>openrouter_request\<close> posts: the model id, the messages and the token
  budget (URL, headers and timeout are constants of each script). The remote service is
  a function \<open>server\<close> from the requests received so far and the present request to the
  response text or the exception raised; it is arbitrary, so a model id may fail once
  and answer the next time. The world records every request sent and the files.

  A file is absent (\<open>None\<close>), readable with its text (\<open>Inr\<close>), or present but raising
  when read (\<open>Inl\<close>). \<open>str_upper\<close> is \<open>str.upper\<close>, \<open>resolve\<close> is \<open>Path.resolve\<close>, \<open>now_isoformat\<close> the formatted clock,
  \<open>mkdir_error\<close> and \<open>write_error\<close> tell whether creating the parent directory of a path
  and writing the path raise; a write that raises is taken to leave the files as they
  were. Progress output (\<open>print\<close>) is not modelled.
\<close>

record message =
  m_role :: string
  m_content :: string

record request =
  req_model :: string
  req_messages :: "message list"
  req_max_tokens :: nat

record world =
  sent :: "request list"
  files :: "string \<rightharpoonup> exn + string"

record env =
  server :: "request list \<Rightarrow> request \<Rightarrow> exn + string"
  str_upper :: "string \<Rightarrow> string"
  resolve :: "string \<Rightarrow> string"
  now_isoformat :: string
  mkdir_error :: "string \<Rightarrow> exn option"
  write_error :: "string \<Rightarrow> exn option"

type_synonym 'a io = "world \<Rightarrow> (exn + 'a) \<times> world"

section \<open>Requests and the fallback chain\<close>

definition payload :: "string \<Rightarrow> message list \<Rightarrow> nat \<Rightarrow> request" where
  "payload model messages max_tokens =
     \<lparr>req_model = model, req_messages = messages, req_max_tokens = max_tokens\<rparr>"

definition openrouter_request :: "env \<Rightarrow> string \<Rightarrow> message list \<Rightarrow> nat \<Rightarrow> string io" where
  "openrouter_request E model messages max_tokens w =
     (server E (sent w) (payload model messages max_tokens),
      w\<lparr>sent := sent w @ [payload model messages max_tokens]\<rparr>)"

text \<open>
  The handler of \<open>get_review\<close>, the same text in both scripts: the loop over
  \<open>FALLBACK_MODELS\<close> returns the first answer, skips every failure (\<open>except: continue\<close>)
  and, when the list is exhausted, raises the exception \<open>e\<close> of the primary request.
\<close>

fun fallback_loop :: "env \<Rightarrow> string list \<Rightarrow> message list \<Rightarrow> nat \<Rightarrow> exn \<Rightarrow> string io" where
  "fallback_loop E [] messages max_tokens e w = (Inl e, w)"
| "fallback_loop E (fallback # rest) messages max_tokens e w =
     (case openrouter_request E fallback messages max_tokens w of
        (Inr text, w') \<Rightarrow> (Inr text, w')
      | (Inl _, w') \<Rightarrow> fallback_loop E rest messages max_tokens e w')"

definition request_with_fallback ::
  "config \<Rightarrow> env \<Rightarrow> string \<Rightarrow> message list \<Rightarrow> nat \<Rightarrow> string io" where
  "request_with_fallback C E model messages max_tokens w =
     (case openrouter_request E model messages max_tokens w of
        (Inr text, w') \<Rightarrow> (Inr text, w')
      | (Inl e, w') \<Rightarrow> fallback_loop E (FALLBACK_MODELS C) messages max_tokens e w')"

section \<open>\<open>trial_by_hex.py\<close>\<close>

text \<open>
  The functions of \<open>trial_by_hex.py\<close>. The older copy of the script kept beside it has
  the same handler in \<open>get_review\<close>, the same \<open>synthesize_reviews\<close>, review loop and
  verdict expression; it differs in the white space of the prompt, reads the input
  without the existence test, writes the report without creating its directory and
  formats the header of the report differently.
\<close>

definition review_system_prompt :: "string \<Rightarrow> string" where
  "review_system_prompt persona =
     ''You are a '' @
     persona @
     '' conducting a blind peer review.\<newline>'' @
     ''\<newline>'' @
     ''Evaluate this work on:\<newline>'' @
     ''1. Technical accuracy\<newline>'' @
     ''2. Clarity of argument\<newline>'' @
     ''3. Evidence quality\<newline>'' @
     ''4. Novel contribution\<newline>'' @
     ''5. Weaknesses and gaps\<newline>'' @
     ''\<newline>'' @
     ''Be specific. Cite sections. Provide actionable feedback.\<newline>'' @
     ''Do NOT reference author credentials or affiliations - this is blind review.\<newline>'' @
     ''Focus purely on the quality of the work itself.''"

definition synthesis_system_prompt :: "string" where
  "synthesis_system_prompt =
     ''Synthesize these 6 blind reviews into a single actionable summary.\<newline>'' @
     ''\<newline>'' @
     ''OUTPUT FORMAT:\<newline>'' @
     ''## High Consensus (4+ reviewers agree)\<newline>'' @
     ''[Issues most reviewers flagged]\<newline>'' @
     ''\<newline>'' @
     ''## Moderate Consensus (2-3 reviewers)\<newline>'' @
     ''[Issues some reviewers noted]\<newline>'' @
     ''\<newline>'' @
     ''## Minority Concerns (1 reviewer, but substantive)\<newline>'' @
     ''[Individual concerns worth considering]\<newline>'' @
     ''\<newline>'' @
     ''## Strengths (what reviewers praised)\<newline>'' @
     ''[Positive feedback]\<newline>'' @
     ''\<newline>'' @
     ''## VERDICT\<newline>'' @
     ''PASS: Ready for publication with minor edits\<newline>'' @
     ''REVISE: Needs significant revision, re-review recommended\<newline>'' @
     ''REJECT: Fundamental issues need addressing\<newline>'' @
     ''\<newline>'' @
     ''Remove any credentialism-based dismissals. Focus on substance.''"

definition review_messages :: "string \<Rightarrow> string \<Rightarrow> message list" where
  "review_messages content persona =
     [\<lparr>m_role = ''system'', m_content = review_system_prompt persona\<rparr>,
      \<lparr>m_role = ''user'', m_content = content\<rparr>]"

definition get_review :: "config \<Rightarrow> env \<Rightarrow> string \<Rightarrow> string \<Rightarrow> string \<Rightarrow> string io" where
  "get_review C E content persona model =
     request_with_fallback C E model (review_messages content persona) 1500"

definition REVIEW_DELIMITER :: string where
  "REVIEW_DELIMITER = ''\<newline>\<newline>---REVIEW---\<newline>\<newline>''"

definition synthesis_messages :: "string list \<Rightarrow> message list" where
  "synthesis_messages reviews =
     (let combined = join REVIEW_DELIMITER reviews
      in [\<lparr>m_role = ''system'', m_content = synthesis_system_prompt\<rparr>,
          \<lparr>m_role = ''user'', m_content = combined\<rparr>])"

definition synthesize_reviews :: "env \<Rightarrow> string list \<Rightarrow> string \<Rightarrow> string io" where
  "synthesize_reviews E reviews synthesis_model =
     openrouter_request E synthesis_model (synthesis_messages reviews) 2000"

definition SYNTHESIS_MODEL :: string where
  "SYNTHESIS_MODEL = ''anthropic/claude-opus-4.5''"

text \<open>
  The review loop of \<open>trial_by_hex\<close>: one entry is appended for every reviewer, the
  review or, when \<open>get_review\<close> raises, the placeholder.
\<close>

fun collect_reviews ::
  "config \<Rightarrow> env \<Rightarrow> string \<Rightarrow> reviewer list \<Rightarrow> string list \<Rightarrow> world \<Rightarrow> string list \<times> world" where
  "collect_reviews C E content [] reviews w = (reviews, w)"
| "collect_reviews C E content (reviewer # rest) reviews w =
     (case get_review C E content (r_persona reviewer) (r_model reviewer) w of
        (Inr review, w') \<Rightarrow> collect_reviews C E content rest (reviews @ [review]) w'
      | (Inl e, w') \<Rightarrow>
          collect_reviews C E content rest (reviews @ [''Review failed: '' @ str_exn e]) w')"

text \<open>The dictionary \<open>{"passed": ..., "synthesis": ...}\<close> that a run returns.\<close>

definition result_dict :: "bool \<Rightarrow> string \<Rightarrow> (string \<rightharpoonup> pyval)" where
  "result_dict passed synthesis =
     [''passed'' \<mapsto> PyBool passed, ''synthesis'' \<mapsto> PyStr synthesis]"

text \<open>\<open>not OPENROUTER_API_KEY\<close>: the key is \<open>None\<close> or the empty string.\<close>

definition api_key_missing :: "string option \<Rightarrow> bool" where
  "api_key_missing key = (case key of None \<Rightarrow> True | Some k \<Rightarrow> k = [])"

text \<open>The verdict expression of \<open>trial_by_hex\<close>: \<open>"PASS" in synthesis.upper()\<close>.\<close>

definition passed_hex :: "env \<Rightarrow> string \<Rightarrow> bool" where
  "passed_hex E synthesis = str_in ''PASS'' (str_upper E synthesis)"

definition verdict_label :: "bool \<Rightarrow> string" where
  "verdict_label passed =
     (if passed then [CHR 0xE2, CHR 0x9C, CHR 0x93] @ '' PASSED''
      else [CHR 0xE2, CHR 0x9A, CHR 0xA0] @ '' NEEDS REVISION'')"

definition report_head :: "string \<Rightarrow> string \<Rightarrow> bool \<Rightarrow> string \<Rightarrow> string" where
  "report_head doc_name date passed synthesis =
     ''# Trial by Hex Review\<newline>'' @
     ''\<newline>'' @
     ''**Document:** '' @ doc_name @ ''\<newline>'' @
     ''**Date:** '' @ date @ ''\<newline>'' @
     ''**Verdict:** '' @ verdict_label passed @ ''\<newline>'' @
     ''**Reviewers:** 6 diverse AI models via OpenRouter\<newline>'' @
     ''\<newline>'' @
     ''---\<newline>'' @
     ''\<newline>'' @
     ''## Synthesized Review\<newline>'' @
     ''\<newline>'' @
     synthesis @ ''\<newline>'' @
     ''\<newline>'' @
     ''---\<newline>'' @
     ''\<newline>'' @
     ''## Individual Reviews\<newline>'' @
     ''\<newline>''"

text \<open>
  The sections of the individual reviews, joined: section \<open>i\<close> reads \<open>REVIEWERS[i]\<close>,
  which raises \<open>IndexError\<close> when there are more reviews than reviewers.
\<close>

definition review_section :: "reviewer \<Rightarrow> nat \<Rightarrow> string \<Rightarrow> string" where
  "review_section reviewer i r =
     ''### Reviewer '' @ str_nat (i + 1) @ '': '' @
       last (split_char CHR ''/'' (r_model reviewer)) @ ''\<newline>'' @
     ''**Persona:** '' @ r_persona reviewer @ ''\<newline>'' @
     ''\<newline>'' @
     r @ ''\<newline>'' @
     ''\<newline>'' @
     ''---\<newline>'' @
     ''\<newline>''"

fun individual_sections :: "reviewer list \<Rightarrow> nat \<Rightarrow> string list \<Rightarrow> exn + string" where
  "individual_sections reviewers i [] = Inr []"
| "individual_sections reviewers i (r # rs) =
     (if i < length reviewers then
        (case individual_sections reviewers (i + 1) rs of
           Inl e \<Rightarrow> Inl e
         | Inr text \<Rightarrow> Inr (review_section (reviewers ! i) i r @ text))
      else Inl (Exception ''list index out of range''))"

definition trial_by_hex :: "config \<Rightarrow> env \<Rightarrow> string \<Rightarrow> string \<Rightarrow> (string \<rightharpoonup> pyval) io" where
  "trial_by_hex C E input_file output_file w =
     (if api_key_missing (OPENROUTER_API_KEY C) then
        (Inr (result_dict False ''API key not set''), w)
      else
        let input_path = resolve E input_file in
        (case files w input_path of
           None \<Rightarrow> (Inr (result_dict False ''Input file not found''), w)
         | Some (Inl e) \<Rightarrow> (Inl e, w)
         | Some (Inr content) \<Rightarrow>
             (case collect_reviews C E content (REVIEWERS C) [] w of
                (reviews, w1) \<Rightarrow>
                  (case synthesize_reviews E reviews SYNTHESIS_MODEL w1 of
                     (Inl e, w2) \<Rightarrow> (Inl e, w2)
                   | (Inr synthesis, w2) \<Rightarrow>
                       let passed = passed_hex E synthesis;
                           output_path = resolve E output_file
                       in (case mkdir_error E output_path of
                             Some e \<Rightarrow> (Inl e, w2)
                           | None \<Rightarrow>
                               (case individual_sections (REVIEWERS C) 0 reviews of
                                  Inl e \<Rightarrow> (Inl e, w2)
                                | Inr sections \<Rightarrow>
                                    (case write_error E output_path of
                                       Some e \<Rightarrow> (Inl e, w2)
                                     | None \<Rightarrow>
                                         (Inr (result_dict passed synthesis),
                                          w2\<lparr>files := (files w2)(output_path \<mapsto>
                                            Inr (report_head
                                                   (last (split_char CHR ''/'' input_path))
                                                   (now_isoformat E) passed synthesis
                                                 @ sections))\<rparr>))))))))"

section \<open>\<open>trial_by_hex_plus.py\<close>\<close>

text \<open>
  The panel of this script is \<open>ORIGINAL_REVIEWERS + PLUS_REVIEWERS\<close>, twelve reviewers of
  which the last six carry a \<open>name\<close>; the functions are modelled for every panel. The
  system prompt of a reviewer without a name is the one of \<open>trial_by_hex.py\<close>.
\<close>

definition named_system_prompt :: "string \<Rightarrow> string \<Rightarrow> string" where
  "named_system_prompt rname persona =
     ''You are '' @
     rname @
     '', a '' @
     persona @
     ''\<newline>'' @
     ''\<newline>'' @
     ''You are conducting a blind peer review. Focus ONLY on your specialized domain.\<newline>'' @
     ''Do NOT reference author credentials or affiliations - this is blind review.\<newline>'' @
     ''Be specific. Cite sections. Provide actionable feedback.''"

definition review_messages_plus :: "string \<Rightarrow> reviewer \<Rightarrow> message list" where
  "review_messages_plus content reviewer =
     (let system_prompt =
            (case r_name reviewer of
               Some rname \<Rightarrow> named_system_prompt rname (r_persona reviewer)
             | None \<Rightarrow> review_system_prompt (r_persona reviewer))
      in [\<lparr>m_role = ''system'', m_content = system_prompt\<rparr>,
          \<lparr>m_role = ''user'', m_content = content\<rparr>])"

definition get_review_plus :: "config \<Rightarrow> env \<Rightarrow> string \<Rightarrow> reviewer \<Rightarrow> string io" where
  "get_review_plus C E content reviewer =
     request_with_fallback C E (r_model reviewer) (review_messages_plus content reviewer) 2000"

definition synthesis_system_prompt_plus :: "string" where
  "synthesis_system_prompt_plus =
     ''Synthesize these 12 specialized blind reviews into a comprehensive actionable summary.\<newline>'' @
     ''\<newline>'' @
     ''The reviewers include:\<newline>'' @
     ''- 6 traditional academic reviewers (methodology, skeptic, constructive, accessibility, literature, reproducibility)\<newline>'' @
     ''- 6 specialized philosophical/systems reviewers:\<newline>'' @
     ''  - Logical Consistency Reviewer (Godelian analysis)\<newline>'' @
     ''  - Semantic Analyst (Wittgensteinian language debugging)\<newline>'' @
     ''  - Ethical Alignment Sentinel (bias and impact)\<newline>'' @
     ''  - Systems Architect (feasibility and implementation)\<newline>'' @
     ''  - Interdisciplinary Catalyst (cross-domain connections)\<newline>'' @
     ''  - Steel Man Advocate (charitable strongest interpretation)\<newline>'' @
     ''\<newline>'' @
     ''OUTPUT FORMAT:\<newline>'' @
     ''\<newline>'' @
     ''## CRITICAL ISSUES (Consensus across multiple reviewers)\<newline>'' @
     ''[Issues flagged by 4+ reviewers - these are blockers]\<newline>'' @
     ''\<newline>'' @
     ''## SIGNIFICANT CONCERNS (2-3 reviewers)\<newline>'' @
     ''[Important issues worth addressing]\<newline>'' @
     ''\<newline>'' @
     ''## CONSIDERATIONS (Single reviewer, but substantive)\<newline>'' @
     ''[Individual concerns that deserve thought]\<newline>'' @
     ''\<newline>'' @
     ''## STRENGTHS (What reviewers praised)\<newline>'' @
     ''[Positive consensus]\<newline>'' @
     ''\<newline>'' @
     ''## LOGICAL/FORMAL ISSUES\<newline>'' @
     ''[From the Logical Consistency Reviewer - Godelian concerns, self-reference issues]\<newline>'' @
     ''\<newline>'' @
     ''## LINGUISTIC CLARITY\<newline>'' @
     ''[From the Semantic Analyst - language bewitchments, definition problems]\<newline>'' @
     ''\<newline>'' @
     ''## ETHICAL CONSIDERATIONS\<newline>'' @
     ''[From the Ethical Alignment Sentinel - bias, impact, safety]\<newline>'' @
     ''\<newline>'' @
     ''## IMPLEMENTATION FEASIBILITY\<newline>'' @
     ''[From the Systems Architect - can it be built?]\<newline>'' @
     ''\<newline>'' @
     ''## INTERDISCIPLINARY CONNECTIONS\<newline>'' @
     ''[From the Interdisciplinary Catalyst - missed connections, synthesis opportunities]\<newline>'' @
     ''\<newline>'' @
     ''## STEEL MANNED VERSION\<newline>'' @
     ''[From the Steel Man Advocate - the strongest form of the argument]\<newline>'' @
     ''\<newline>'' @
     ''## VERDICT\<newline>'' @
     ''\<newline>'' @
     ''**Technical Quality:** [1-5 stars]\<newline>'' @
     ''**Logical Coherence:** [1-5 stars]\<newline>'' @
     ''**Ethical Alignment:** [1-5 stars]\<newline>'' @
     ''**Feasibility:** [1-5 stars]\<newline>'' @
     ''**Novelty:** [1-5 stars]\<newline>'' @
     ''\<newline>'' @
     ''**Overall:** PASS | REVISE | REJECT\<newline>'' @
     ''\<newline>'' @
     ''**Priority Actions:**\<newline>'' @
     ''1. [Most important fix]\<newline>'' @
     ''2. [Second priority]\<newline>'' @
     ''3. [Third priority]\<newline>'' @
     ''\<newline>'' @
     ''Remove any credentialism-based dismissals. Focus on substance.''"

text \<open>
  \<open>reviewer.get('name', f"Reviewer {i+1}")\<close> and the labelled reviews, over
  \<open>enumerate(zip(reviews, reviewer_info))\<close>.
\<close>

definition display_name :: "reviewer \<Rightarrow> nat \<Rightarrow> string" where
  "display_name reviewer i =
     (case r_name reviewer of
        Some rname \<Rightarrow> rname
      | None \<Rightarrow> ''Reviewer '' @ str_nat (i + 1))"

fun formatted_reviews :: "nat \<Rightarrow> string list \<Rightarrow> reviewer list \<Rightarrow> string list" where
  "formatted_reviews i (review # reviews) (reviewer # reviewer_info) =
     (''### '' @ display_name reviewer i @ ''\<newline>'' @ review)
       # formatted_reviews (i + 1) reviews reviewer_info"
| "formatted_reviews i _ _ = []"

definition synthesis_messages_plus :: "string list \<Rightarrow> reviewer list \<Rightarrow> message list" where
  "synthesis_messages_plus reviews reviewer_info =
     (let combined = join REVIEW_DELIMITER (formatted_reviews 0 reviews reviewer_info)
      in [\<lparr>m_role = ''system'', m_content = synthesis_system_prompt_plus\<rparr>,
          \<lparr>m_role = ''user'', m_content = combined\<rparr>])"

definition synthesize_reviews_plus ::
  "env \<Rightarrow> string list \<Rightarrow> reviewer list \<Rightarrow> string \<Rightarrow> string io" where
  "synthesize_reviews_plus E reviews reviewer_info synthesis_model =
     openrouter_request E synthesis_model (synthesis_messages_plus reviews reviewer_info) 3000"

fun collect_reviews_plus ::
  "config \<Rightarrow> env \<Rightarrow> string \<Rightarrow> reviewer list \<Rightarrow> string list \<Rightarrow> world \<Rightarrow> string list \<times> world" where
  "collect_reviews_plus C E content [] reviews w = (reviews, w)"
| "collect_reviews_plus C E content (reviewer # rest) reviews w =
     (case get_review_plus C E content reviewer w of
        (Inr review, w') \<Rightarrow> collect_reviews_plus C E content rest (reviews @ [review]) w'
      | (Inl e, w') \<Rightarrow>
          collect_reviews_plus C E content rest
            (reviews @ [''Review failed: '' @ str_exn e]) w')"

text \<open>
  The verdict expression of \<open>trial_by_hex_plus\<close>:
  \<open>"PASS" in synthesis.upper() and "REJECT" not in synthesis.upper()\<close>.
\<close>

definition passed_plus :: "env \<Rightarrow> string \<Rightarrow> bool" where
  "passed_plus E synthesis =
     (str_in ''PASS'' (str_upper E synthesis) \<and>
      \<not> str_in ''REJECT'' (str_upper E synthesis))"

definition verdict_label_plus :: "bool \<Rightarrow> string" where
  "verdict_label_plus passed = (if passed then ''PASSED'' else ''NEEDS REVISION'')"

definition review_section_plus :: "reviewer \<Rightarrow> nat \<Rightarrow> string \<Rightarrow> string" where
  "review_section_plus reviewer i review =
     (let rname = display_name reviewer i;
          persona = py_take 200 (r_persona reviewer)
      in ''### '' @ str_nat (i + 1) @ ''. '' @ rname @ ''\<newline>'' @
         ''**Model:** '' @ r_model reviewer @ ''\<newline>'' @
         ''**Focus:** '' @ py_take 100 persona @
           (if py_len persona > 100 then ''...'' else []) @ ''\<newline>'' @
         ''\<newline>'' @
         review @ ''\<newline>'' @
         ''\<newline>'' @
         ''---\<newline>'' @
         ''\<newline>'')"

fun individual_reviews_plus :: "nat \<Rightarrow> string list \<Rightarrow> reviewer list \<Rightarrow> string" where
  "individual_reviews_plus i (review # reviews) (reviewer # reviewers) =
     review_section_plus reviewer i review @ individual_reviews_plus (i + 1) reviews reviewers"
| "individual_reviews_plus i _ _ = []"

definition report_plus :: "string \<Rightarrow> string \<Rightarrow> bool \<Rightarrow> string \<Rightarrow> string \<Rightarrow> string" where
  "report_plus doc_name date passed synthesis individual_reviews =
     ''# Trial by Hex+ Review\<newline>'' @
     ''\<newline>'' @
     ''**Document:** '' @ doc_name @ ''\<newline>'' @
     ''**Date:** '' @ date @ ''\<newline>'' @
     ''**Verdict:** '' @ verdict_label_plus passed @ ''\<newline>'' @
     ''**Reviewers:** 12 specialized AI reviewers via OpenRouter\<newline>'' @
     ''\<newline>'' @
     ''---\<newline>'' @
     ''\<newline>'' @
     ''## Synthesized Review\<newline>'' @
     ''\<newline>'' @
     synthesis @ ''\<newline>'' @
     ''\<newline>'' @
     ''---\<newline>'' @
     ''\<newline>'' @
     ''## Individual Reviews\<newline>'' @
     ''\<newline>'' @
     individual_reviews @ ''\<newline>''"

definition trial_by_hex_plus ::
  "config \<Rightarrow> env \<Rightarrow> string \<Rightarrow> string \<Rightarrow> (string \<rightharpoonup> pyval) io" where
  "trial_by_hex_plus C E input_file output_file w =
     (if api_key_missing (OPENROUTER_API_KEY C) then
        (Inr (result_dict False ''API key not set''), w)
      else
        let input_path = resolve E input_file in
        (case files w input_path of
           None \<Rightarrow> (Inr (result_dict False ''Input file not found''), w)
         | Some (Inl e) \<Rightarrow> (Inl e, w)
         | Some (Inr content) \<Rightarrow>
             (case collect_reviews_plus C E content (REVIEWERS C) [] w of
                (reviews, w1) \<Rightarrow>
                  (case synthesize_reviews_plus E reviews (REVIEWERS C) SYNTHESIS_MODEL w1 of
                     (Inl e, w2) \<Rightarrow> (Inl e, w2)
                   | (Inr synthesis, w2) \<Rightarrow>
                       let passed = passed_plus E synthesis;
                           output_path = resolve E output_file
                       in (case mkdir_error E output_path of
                             Some e \<Rightarrow> (Inl e, w2)
                           | None \<Rightarrow>
                               let individual_reviews =
                                     individual_reviews_plus 0 reviews (REVIEWERS C)
                               in (case write_error E output_path of
                                     Some e \<Rightarrow> (Inl e, w2)
                                   | None \<Rightarrow>
                                       (Inr (result_dict passed synthesis),
                                        w2\<lparr>files := (files w2)(output_path \<mapsto>
                                          Inr (report_plus
                                                 (last (split_char CHR ''/'' input_path))
                                                 (now_isoformat E) passed synthesis
                                                 individual_reviews))\<rparr>)))))))"

section \<open>Auxiliary notions for the statements\<close>

text \<open>
  Every model of a fallback list fails in turn, starting from the requests \<open>h\<close> already
  received by the service.
\<close>

fun all_fallbacks_fail ::
  "env \<Rightarrow> string list \<Rightarrow> message list \<Rightarrow> nat \<Rightarrow> request list \<Rightarrow> bool" where
  "all_fallbacks_fail E [] messages max_tokens h = True"
| "all_fallbacks_fail E (fallback # rest) messages max_tokens h =
     (isl (server E h (payload fallback messages max_tokens)) \<and>
      all_fallbacks_fail E rest messages max_tokens
        (h @ [payload fallback messages max_tokens]))"

section \<open>Concrete worlds\<close>

text \<open>A service on which every request fails with a cause naming the model asked.\<close>

definition failing_env :: env where
  "failing_env =
     \<lparr>server = (\<lambda>h r. Inl (Exception (''HTTP 503 from '' @ req_model r))),
      str_upper = ascii_upper, resolve = (\<lambda>p. p),
      now_isoformat = ''2025-01-01T00:00:00'',
      mkdir_error = (\<lambda>p. None), write_error = (\<lambda>p. None)\<rparr>"

definition empty_world :: world where
  "empty_world = \<lparr>sent = [], files = Map.empty\<rparr>"

definition logic_reviewer :: reviewer where
  "logic_reviewer =
     \<lparr>r_model = ''anthropic/claude-opus-4.5'', r_persona = ''logician'',
      r_name = Some ''The Logical Consistency Reviewer''\<rparr>"

text \<open>
  A service whose first request fails and which answers every later one, and a service
  that answers every request with the same text.
\<close>

definition flaky_env :: env where
  "flaky_env =
     \<lparr>server = (\<lambda>h r. if h = [] then Inl (Exception ''HTTP 429 rate limited'')
                         else Inr (''answer of '' @ req_model r)),
      str_upper = ascii_upper, resolve = (\<lambda>p. p),
      now_isoformat = ''2025-01-01T00:00:00'',
      mkdir_error = (\<lambda>p. None), write_error = (\<lambda>p. None)\<rparr>"

definition answering_env :: "string \<Rightarrow> env" where
  "answering_env text =
     \<lparr>server = (\<lambda>h r. Inr text),
      str_upper = ascii_upper, resolve = (\<lambda>p. p),
      now_isoformat = ''2025-01-01T00:00:00'',
      mkdir_error = (\<lambda>p. None), write_error = (\<lambda>p. None)\<rparr>"

text \<open>A service that answers requests to one model and fails for the others.\<close>

definition sonnet_only_env :: env where
  "sonnet_only_env =
     \<lparr>server = (\<lambda>h r. if req_model r = ''anthropic/claude-sonnet-4.5'' then Inr ''sound''
                         else Inl (Exception (''HTTP 503 from '' @ req_model r))),
      str_upper = ascii_upper, resolve = (\<lambda>p. p),
      now_isoformat = ''2025-01-01T00:00:00'',
      mkdir_error = (\<lambda>p. None), write_error = (\<lambda>p. None)\<rparr>"

text \<open>A world holding the document to review, and a configuration with an empty panel.\<close>

definition doc_world :: world where
  "doc_world = \<lparr>sent = [], files = [''in.md'' \<mapsto> Inr ''text'']\<rparr>"


text \<open>A synthesis text that rejects the document and contains the word PASS.\<close>

definition rejecting_text :: string where
  "rejecting_text = ''REJECT: fundamental issues, this cannot PASS''"

text \<open>The marker inside the delimiter that separates the reviews of the aggregate text.\<close>

definition REVIEW_MARKER :: string where
  "REVIEW_MARKER = ''---REVIEW---''"

section \<open>The fallback chain\<close>

lemma fallback_loop_all_fail:
  "all_fallbacks_fail E fbs messages mt (sent w) \<Longrightarrow>
   fst (fallback_loop E fbs messages mt e w) = Inl e"
proof (induction fbs arbitrary: w)
  case Nil
  then show ?case by simp
next
  case (Cons f fbs)
  from Cons.prems obtain e' where
    f: "server E (sent w) (payload f messages mt) = Inl e'"
    by (auto simp: isl_def)
  from Cons.prems have
    r: "all_fallbacks_fail E fbs messages mt
          (sent (w\<lparr>sent := sent w @ [payload f messages mt]\<rparr>))"
    by simp
  show ?case
    using Cons.IH [OF r] f by (simp add: openrouter_request_def)
qed

lemma request_with_fallback_all_fail:
  assumes "server E (sent w) (payload model messages mt) = Inl e"
    and "all_fallbacks_fail E (FALLBACK_MODELS C) messages mt
           (sent w @ [payload model messages mt])"
  shows "fst (request_with_fallback C E model messages mt w) = Inl e"
  using assms
    fallback_loop_all_fail [of E "FALLBACK_MODELS C" messages mt
      "w\<lparr>sent := sent w @ [payload model messages mt]\<rparr>" e]
  by (simp add: request_with_fallback_def openrouter_request_def)

lemma request_with_fallback_primary_ok:
  assumes "server E (sent w) (payload model messages mt) = Inr text"
  shows "request_with_fallback C E model messages mt w =
           (Inr text, w\<lparr>sent := sent w @ [payload model messages mt]\<rparr>)"
  using assms by (simp add: request_with_fallback_def openrouter_request_def)

text \<open>
  Claim C5. When the request to the primary model fails with \<open>e\<close> and every model of the
  fallback list fails as well, \<open>get_review\<close> raises \<open>e\<close>, the failure of the primary
  model, and not the failure of a fallback; in \<open>trial_by_hex.py\<close> and in
  \<open>trial_by_hex_plus.py\<close>.
\<close>

theorem get_review_raises_primary_failure:
  "(server E (sent w) (payload model (review_messages content persona) 1500) = Inl e \<and>
    all_fallbacks_fail E (FALLBACK_MODELS C) (review_messages content persona) 1500
      (sent w @ [payload model (review_messages content persona) 1500])
    \<longrightarrow> fst (get_review C E content persona model w) = Inl e)
   \<and>
   (server E' (sent w')
      (payload (r_model reviewer) (review_messages_plus content' reviewer) 2000) = Inl e' \<and>
    all_fallbacks_fail E' (FALLBACK_MODELS C') (review_messages_plus content' reviewer) 2000
      (sent w' @ [payload (r_model reviewer) (review_messages_plus content' reviewer) 2000])
    \<longrightarrow> fst (get_review_plus C' E' content' reviewer w') = Inl e')"
  by (simp add: get_review_def get_review_plus_def request_with_fallback_all_fail)

theorem get_review_raises_primary_failure_witness:
  "server failing_env (sent empty_world)
     (payload ''openai/gpt-5.1'' (review_messages ''text'' ''critic'') 1500)
     = Inl (Exception ''HTTP 503 from openai/gpt-5.1'')
   \<and> all_fallbacks_fail failing_env HEX_FALLBACK_MODELS (review_messages ''text'' ''critic'')
        1500 [payload ''openai/gpt-5.1'' (review_messages ''text'' ''critic'') 1500]
   \<and> fst (get_review (hex_config (Some ''key'')) failing_env ''text'' ''critic''
            ''openai/gpt-5.1'' empty_world)
       = Inl (Exception ''HTTP 503 from openai/gpt-5.1'')
   \<and> fst (get_review_plus (hex_config (Some ''key'')) failing_env ''text'' logic_reviewer
            empty_world)
       = Inl (Exception ''HTTP 503 from anthropic/claude-opus-4.5'')"
  using get_review_raises_primary_failure
    [of failing_env empty_world "''openai/gpt-5.1''" "''text''" "''critic''"
      "Exception ''HTTP 503 from openai/gpt-5.1''" "hex_config (Some ''key'')"
      failing_env empty_world logic_reviewer "''text''"
      "Exception ''HTTP 503 from anthropic/claude-opus-4.5''" "hex_config (Some ''key'')"]
  by (simp add: failing_env_def empty_world_def hex_config_def HEX_FALLBACK_MODELS_def
      payload_def logic_reviewer_def)

lemma fallback_loop_attempts:
  "\<exists>k\<le>length fbs.
     sent (snd (fallback_loop E fbs messages mt e w)) =
       sent w @ map (\<lambda>f. payload f messages mt) (take k fbs)
     \<and> min 1 (length fbs) \<le> k
     \<and> all_fallbacks_fail E (take (k - 1) fbs) messages mt (sent w)
     \<and> (case fst (fallback_loop E fbs messages mt e w) of
          Inl e' \<Rightarrow> e' = e \<and> k = length fbs
               \<and> all_fallbacks_fail E fbs messages mt (sent w)
        | Inr answer \<Rightarrow> 0 < k \<and>
            server E (sent w @ map (\<lambda>f. payload f messages mt) (take (k - 1) fbs))
              (payload (fbs ! (k - 1)) messages mt) = Inr answer)"
proof (induction fbs arbitrary: w)
  case Nil
  then show ?case by simp
next
  case (Cons f fbs)
  let ?rq = "\<lambda>f. payload f messages mt"
  show ?case
  proof (cases "server E (sent w) (?rq f)")
    case (Inr answer)
    then show ?thesis
      by (intro exI [where x = 1]) (simp add: openrouter_request_def)
  next
    case (Inl e1)
    let ?w = "w\<lparr>sent := sent w @ [?rq f]\<rparr>"
    from Cons.IH [of ?w] obtain k where k: "k \<le> length fbs"
      and s: "sent (snd (fallback_loop E fbs messages mt e ?w)) = sent ?w @ map ?rq (take k fbs)"
      and m: "min 1 (length fbs) \<le> k"
      and p: "all_fallbacks_fail E (take (k - 1) fbs) messages mt (sent ?w)"
      and r: "(case fst (fallback_loop E fbs messages mt e ?w) of
                 Inl e' \<Rightarrow> e' = e \<and> k = length fbs \<and> all_fallbacks_fail E fbs messages mt (sent ?w)
               | Inr answer \<Rightarrow> 0 < k \<and>
                   server E (sent ?w @ map ?rq (take (k - 1) fbs)) (?rq (fbs ! (k - 1))) = Inr answer)"
      by blast
    have eq: "fallback_loop E (f # fbs) messages mt e w = fallback_loop E fbs messages mt e ?w"
      using Inl by (simp add: openrouter_request_def)
    show ?thesis
    proof (intro exI [where x = "Suc k"] conjI)
      show "Suc k \<le> length (f # fbs)" using k by simp
      show "sent (snd (fallback_loop E (f # fbs) messages mt e w)) =
              sent w @ map ?rq (take (Suc k) (f # fbs))"
        using s eq by simp
      show "min 1 (length (f # fbs)) \<le> Suc k" by simp
      show "all_fallbacks_fail E (take (Suc k - 1) (f # fbs)) messages mt (sent w)"
      proof (cases k)
        case 0
        then show ?thesis by simp
      next
        case (Suc i)
        with p Inl show ?thesis by simp
      qed
      show "case fst (fallback_loop E (f # fbs) messages mt e w) of
              Inl e' \<Rightarrow> e' = e \<and> Suc k = length (f # fbs)
                 \<and> all_fallbacks_fail E (f # fbs) messages mt (sent w)
            | Inr answer \<Rightarrow> 0 < Suc k \<and>
                server E (sent w @ map ?rq (take (Suc k - 1) (f # fbs)))
                  (?rq ((f # fbs) ! (Suc k - 1))) = Inr answer"
      proof (cases "fst (fallback_loop E fbs messages mt e ?w)")
        case (Inl e2)
        then show ?thesis using r eq \<open>server E (sent w) (?rq f) = Inl e1\<close> by simp
      next
        case (Inr answer)
        with r have "0 < k" and
          "server E (sent ?w @ map ?rq (take (k - 1) fbs)) (?rq (fbs ! (k - 1))) = Inr answer"
          by simp_all
        then show ?thesis using Inr eq by (cases k) simp_all
      qed
    qed
  qed
qed

lemma request_with_fallback_attempts:
  assumes "server E (sent w) (payload model messages mt) = Inl e"
  shows "\<exists>k\<le>length (FALLBACK_MODELS C).
     sent (snd (request_with_fallback C E model messages mt w)) =
       sent w @ payload model messages mt #
         map (\<lambda>f. payload f messages mt) (take k (FALLBACK_MODELS C))
     \<and> min 1 (length (FALLBACK_MODELS C)) \<le> k
     \<and> all_fallbacks_fail E (take (k - 1) (FALLBACK_MODELS C)) messages mt
          (sent w @ [payload model messages mt])
     \<and> (case fst (request_with_fallback C E model messages mt w) of
          Inl e' \<Rightarrow> e' = e \<and> k = length (FALLBACK_MODELS C)
        | Inr answer \<Rightarrow> 0 < k \<and>
            server E (sent w @ payload model messages mt #
                        map (\<lambda>f. payload f messages mt) (take (k - 1) (FALLBACK_MODELS C)))
              (payload (FALLBACK_MODELS C ! (k - 1)) messages mt) = Inr answer)"
proof -
  let ?w = "w\<lparr>sent := sent w @ [payload model messages mt]\<rparr>"
  have eq: "request_with_fallback C E model messages mt w =
              fallback_loop E (FALLBACK_MODELS C) messages mt e ?w"
    using assms by (simp add: request_with_fallback_def openrouter_request_def)
  from fallback_loop_attempts [of "FALLBACK_MODELS C" E messages mt e ?w]
  obtain k where "k \<le> length (FALLBACK_MODELS C)"
    "sent (snd (fallback_loop E (FALLBACK_MODELS C) messages mt e ?w)) =
       sent ?w @ map (\<lambda>f. payload f messages mt) (take k (FALLBACK_MODELS C))"
    "min 1 (length (FALLBACK_MODELS C)) \<le> k"
    "all_fallbacks_fail E (take (k - 1) (FALLBACK_MODELS C)) messages mt (sent ?w)"
    "(case fst (fallback_loop E (FALLBACK_MODELS C) messages mt e ?w) of
          Inl e' \<Rightarrow> e' = e \<and> k = length (FALLBACK_MODELS C)
               \<and> all_fallbacks_fail E (FALLBACK_MODELS C) messages mt (sent ?w)
        | Inr answer \<Rightarrow> 0 < k \<and>
            server E (sent ?w @ map (\<lambda>f. payload f messages mt) (take (k - 1) (FALLBACK_MODELS C)))
              (payload (FALLBACK_MODELS C ! (k - 1)) messages mt) = Inr answer)"
    by blast
  then show ?thesis
    unfolding eq
    by (intro exI [where x = k]) (auto split: sum.splits)
qed

text \<open>
  Claim C8. When the request to the primary model is answered, \<open>get_review\<close> returns that
  answer and the only request sent is the one to the primary model: no fallback model
  is asked; in \<open>trial_by_hex.py\<close> and in \<open>trial_by_hex_plus.py\<close>.
\<close>

theorem primary_success_no_fallback:
  "(server E (sent w) (payload model (review_messages content persona) 1500) = Inr text
    \<longrightarrow> get_review C E content persona model w =
          (Inr text, w\<lparr>sent := sent w @ [payload model (review_messages content persona) 1500]\<rparr>))
   \<and>
   (server E' (sent w')
      (payload (r_model reviewer) (review_messages_plus content' reviewer) 2000) = Inr text'
    \<longrightarrow> get_review_plus C' E' content' reviewer w' =
          (Inr text', w'\<lparr>sent := sent w' @
             [payload (r_model reviewer) (review_messages_plus content' reviewer) 2000]\<rparr>))"
  by (simp add: get_review_def get_review_plus_def request_with_fallback_primary_ok)

theorem primary_success_no_fallback_witness:
  "server (answering_env ''fine'') (sent empty_world)
     (payload ''openai/gpt-5.1'' (review_messages ''text'' ''critic'') 1500) = Inr ''fine''
   \<and> get_review (hex_config (Some ''key'')) (answering_env ''fine'') ''text'' ''critic''
         ''openai/gpt-5.1'' empty_world
       = (Inr ''fine'',
          \<lparr>sent = [payload ''openai/gpt-5.1'' (review_messages ''text'' ''critic'') 1500],
           files = Map.empty\<rparr>)
   \<and> get_review_plus (hex_config (Some ''key'')) (answering_env ''fine'') ''text''
         logic_reviewer empty_world
       = (Inr ''fine'',
          \<lparr>sent = [payload ''anthropic/claude-opus-4.5''
                     (review_messages_plus ''text'' logic_reviewer) 2000],
           files = Map.empty\<rparr>)"
  using primary_success_no_fallback
    [of "answering_env ''fine''" empty_world "''openai/gpt-5.1''" "''text''" "''critic''"
      "''fine''" "hex_config (Some ''key'')"
      "answering_env ''fine''" empty_world logic_reviewer "''text''" "''fine''"
      "hex_config (Some ''key'')"]
  by (simp add: answering_env_def empty_world_def logic_reviewer_def)

section \<open>The synthesis request\<close>

text \<open>
  Claim C2, as stated, fails: when the synthesis model fails, \<open>synthesize_reviews\<close> has
  sent one request, to the synthesis model, and none to a model of the fallback list;
  in both scripts.
\<close>

theorem synthesis_fallback_counterexample:
  "fst (synthesize_reviews failing_env [''review one'', ''review two''] SYNTHESIS_MODEL empty_world)
     = Inl (Exception ''HTTP 503 from anthropic/claude-opus-4.5'')
   \<and> map req_model (sent (snd (synthesize_reviews failing_env [''review one'', ''review two'']
          SYNTHESIS_MODEL empty_world)))
     = [''anthropic/claude-opus-4.5'']
   \<and> map req_model (sent (snd (synthesize_reviews failing_env [''review one'', ''review two'']
          SYNTHESIS_MODEL empty_world)))
     \<noteq> SYNTHESIS_MODEL # HEX_FALLBACK_MODELS
   \<and> fst (synthesize_reviews_plus failing_env [''review one''] [logic_reviewer] SYNTHESIS_MODEL empty_world)
     = Inl (Exception ''HTTP 503 from anthropic/claude-opus-4.5'')
   \<and> map req_model (sent (snd (synthesize_reviews_plus failing_env [''review one''] [logic_reviewer]
          SYNTHESIS_MODEL empty_world)))
     = [''anthropic/claude-opus-4.5'']"
  by (simp add: synthesize_reviews_def synthesize_reviews_plus_def openrouter_request_def
      failing_env_def empty_world_def SYNTHESIS_MODEL_def payload_def HEX_FALLBACK_MODELS_def)

text \<open>
  Claim C2, amended. \<open>synthesize_reviews\<close> sends exactly one request, to the synthesis
  model, and its result is the answer or the failure of that request: a failure is
  raised without asking any fallback model; in both scripts.
\<close>

theorem synthesis_single_request:
  "synthesize_reviews E reviews synthesis_model w =
     (server E (sent w) (payload synthesis_model (synthesis_messages reviews) 2000),
      w\<lparr>sent := sent w @ [payload synthesis_model (synthesis_messages reviews) 2000]\<rparr>)
   \<and> synthesize_reviews_plus E reviews reviewer_info synthesis_model w =
     (server E (sent w)
        (payload synthesis_model (synthesis_messages_plus reviews reviewer_info) 3000),
      w\<lparr>sent := sent w @
        [payload synthesis_model (synthesis_messages_plus reviews reviewer_info) 3000]\<rparr>)"
  by (simp add: synthesize_reviews_def synthesize_reviews_plus_def openrouter_request_def)

section \<open>The models asked after a primary failure\<close>

lemma request_with_fallback_sent_all_fail:
  assumes "server E (sent w) (payload model messages mt) = Inl e"
    and "all_fallbacks_fail E (FALLBACK_MODELS C) messages mt
           (sent w @ [payload model messages mt])"
  shows "sent (snd (request_with_fallback C E model messages mt w)) =
           sent w @ payload model messages mt #
             map (\<lambda>f. payload f messages mt) (FALLBACK_MODELS C)"
proof -
  from request_with_fallback_attempts [OF assms(1), of C]
  obtain k where
    s: "sent (snd (request_with_fallback C E model messages mt w)) =
          sent w @ payload model messages mt #
            map (\<lambda>f. payload f messages mt) (take k (FALLBACK_MODELS C))"
    and c: "(case fst (request_with_fallback C E model messages mt w) of
              Inl e' \<Rightarrow> e' = e \<and> k = length (FALLBACK_MODELS C)
            | Inr answer \<Rightarrow> 0 < k \<and>
                server E (sent w @ payload model messages mt #
                            map (\<lambda>f. payload f messages mt)
                              (take (k - 1) (FALLBACK_MODELS C)))
                  (payload (FALLBACK_MODELS C ! (k - 1)) messages mt) = Inr answer)"
    by blast
  from request_with_fallback_all_fail [OF assms] c
  have "k = length (FALLBACK_MODELS C)" by simp
  with s show ?thesis by simp
qed

text \<open>
  Claim C10. After a failure of the primary model, the loop of \<open>get_review\<close> goes over
  the shared fallback list as it is, in its listed order and with the messages of the
  primary request, whatever the id of the failed primary: the requests sent are those
  to the first \<open>k\<close> entries, at least one when the list is not empty, every entry before
  the last one asked has failed, and \<open>get_review\<close> either returns the answer of the last
  entry asked (the fallback policy stops at the first answer) or raises the primary
  failure after the full list. When every entry fails, the models asked are the full
  list in its listed order. For the reviewer on \<open>x-ai/grok-4.1-fast:free\<close> of
  \<open>trial_by_hex.py\<close>, whose id is also the first fallback entry, the request after the
  failed primary one is the same request to the same model id.
\<close>

theorem fallback_attempts_in_listed_order:
  "(server E (sent w) (payload model (review_messages content persona) 1500) = Inl e \<longrightarrow>
     (\<exists>k\<le>length (FALLBACK_MODELS C).
        sent (snd (get_review C E content persona model w)) =
          sent w @ payload model (review_messages content persona) 1500 #
            map (\<lambda>f. payload f (review_messages content persona) 1500)
              (take k (FALLBACK_MODELS C))
        \<and> min 1 (length (FALLBACK_MODELS C)) \<le> k
        \<and> all_fallbacks_fail E (take (k - 1) (FALLBACK_MODELS C))
             (review_messages content persona) 1500
             (sent w @ [payload model (review_messages content persona) 1500])
        \<and> (case fst (get_review C E content persona model w) of
             Inl e' \<Rightarrow> e' = e \<and> k = length (FALLBACK_MODELS C)
           | Inr answer \<Rightarrow> 0 < k \<and>
               server E (sent w @ payload model (review_messages content persona) 1500 #
                           map (\<lambda>f. payload f (review_messages content persona) 1500)
                             (take (k - 1) (FALLBACK_MODELS C)))
                 (payload (FALLBACK_MODELS C ! (k - 1)) (review_messages content persona) 1500)
               = Inr answer)))
   \<and>
   (server E' (sent w')
      (payload ''x-ai/grok-4.1-fast:free''
         (review_messages content' (r_persona (HEX_REVIEWERS ! 3))) 1500) = Inl e' \<longrightarrow>
     r_model (HEX_REVIEWERS ! 3) = ''x-ai/grok-4.1-fast:free'' \<and>
     take 2 (drop (length (sent w'))
       (sent (snd (get_review (hex_config key) E' content' (r_persona (HEX_REVIEWERS ! 3))
                     (r_model (HEX_REVIEWERS ! 3)) w')))) =
       [payload ''x-ai/grok-4.1-fast:free''
          (review_messages content' (r_persona (HEX_REVIEWERS ! 3))) 1500,
        payload ''x-ai/grok-4.1-fast:free''
          (review_messages content' (r_persona (HEX_REVIEWERS ! 3))) 1500])
   \<and>
   (server E'' (sent w'') (payload model'' (review_messages content'' persona'') 1500)
      = Inl e'' \<and>
    all_fallbacks_fail E'' (FALLBACK_MODELS C'') (review_messages content'' persona'') 1500
      (sent w'' @ [payload model'' (review_messages content'' persona'') 1500]) \<longrightarrow>
     sent (snd (get_review C'' E'' content'' persona'' model'' w'')) =
       sent w'' @ payload model'' (review_messages content'' persona'') 1500 #
         map (\<lambda>f. payload f (review_messages content'' persona'') 1500)
           (FALLBACK_MODELS C''))"
proof (intro conjI impI)
  assume "server E (sent w) (payload model (review_messages content persona) 1500) = Inl e"
  from request_with_fallback_attempts [OF this, of C]
  show "\<exists>k\<le>length (FALLBACK_MODELS C).
        sent (snd (get_review C E content persona model w)) =
          sent w @ payload model (review_messages content persona) 1500 #
            map (\<lambda>f. payload f (review_messages content persona) 1500)
              (take k (FALLBACK_MODELS C))
        \<and> min 1 (length (FALLBACK_MODELS C)) \<le> k
        \<and> all_fallbacks_fail E (take (k - 1) (FALLBACK_MODELS C))
             (review_messages content persona) 1500
             (sent w @ [payload model (review_messages content persona) 1500])
        \<and> (case fst (get_review C E content persona model w) of
             Inl e' \<Rightarrow> e' = e \<and> k = length (FALLBACK_MODELS C)
           | Inr answer \<Rightarrow> 0 < k \<and>
               server E (sent w @ payload model (review_messages content persona) 1500 #
                           map (\<lambda>f. payload f (review_messages content persona) 1500)
                             (take (k - 1) (FALLBACK_MODELS C)))
                 (payload (FALLBACK_MODELS C ! (k - 1)) (review_messages content persona) 1500)
               = Inr answer)"
    by (simp add: get_review_def)
next
  show "r_model (HEX_REVIEWERS ! 3) = ''x-ai/grok-4.1-fast:free''"
    by (simp add: HEX_REVIEWERS_def)
next
  let ?ms = "review_messages content' (r_persona (HEX_REVIEWERS ! 3))"
  let ?rq = "payload ''x-ai/grok-4.1-fast:free'' ?ms 1500"
  assume a: "server E' (sent w') ?rq = Inl e'"
  have m: "r_model (HEX_REVIEWERS ! 3) = ''x-ai/grok-4.1-fast:free''"
    by (simp add: HEX_REVIEWERS_def)
  from request_with_fallback_attempts [OF a, of "hex_config key"]
  obtain k where
    s: "sent (snd (request_with_fallback (hex_config key) E' ''x-ai/grok-4.1-fast:free'' ?ms 1500 w')) =
       sent w' @ ?rq # map (\<lambda>f. payload f ?ms 1500) (take k (FALLBACK_MODELS (hex_config key)))"
    and k: "min 1 (length (FALLBACK_MODELS (hex_config key))) \<le> k"
    by blast
  from k obtain j where j: "k = Suc j"
    by (cases k) (simp_all add: hex_config_def HEX_FALLBACK_MODELS_def)
  show "take 2 (drop (length (sent w'))
       (sent (snd (get_review (hex_config key) E' content' (r_persona (HEX_REVIEWERS ! 3))
                     (r_model (HEX_REVIEWERS ! 3)) w')))) = [?rq, ?rq]"
    unfolding m get_review_def s j
    by (simp add: hex_config_def HEX_FALLBACK_MODELS_def)
next
  assume "server E'' (sent w'') (payload model'' (review_messages content'' persona'') 1500)
      = Inl e'' \<and>
    all_fallbacks_fail E'' (FALLBACK_MODELS C'') (review_messages content'' persona'') 1500
      (sent w'' @ [payload model'' (review_messages content'' persona'') 1500])"
  then show "sent (snd (get_review C'' E'' content'' persona'' model'' w'')) =
       sent w'' @ payload model'' (review_messages content'' persona'') 1500 #
         map (\<lambda>f. payload f (review_messages content'' persona'') 1500)
           (FALLBACK_MODELS C'')"
    by (simp add: get_review_def request_with_fallback_sent_all_fail)
qed

theorem fallback_attempts_in_listed_order_witness:
  "server flaky_env (sent empty_world)
     (payload ''x-ai/grok-4.1-fast:free''
        (review_messages ''text'' (r_persona (HEX_REVIEWERS ! 3))) 1500)
     = Inl (Exception ''HTTP 429 rate limited'')
   \<and> take 2 (drop (length (sent empty_world))
       (sent (snd (get_review (hex_config (Some ''key'')) flaky_env ''text''
                     (r_persona (HEX_REVIEWERS ! 3)) (r_model (HEX_REVIEWERS ! 3))
                     empty_world)))) =
       [payload ''x-ai/grok-4.1-fast:free''
          (review_messages ''text'' (r_persona (HEX_REVIEWERS ! 3))) 1500,
        payload ''x-ai/grok-4.1-fast:free''
          (review_messages ''text'' (r_persona (HEX_REVIEWERS ! 3))) 1500]
   \<and> map req_model (sent (snd (get_review (hex_config (Some ''key'')) flaky_env ''text''
          (r_persona (HEX_REVIEWERS ! 3)) (r_model (HEX_REVIEWERS ! 3)) empty_world)))
       = [''x-ai/grok-4.1-fast:free'', ''x-ai/grok-4.1-fast:free'']
   \<and> server failing_env (sent empty_world)
       (payload ''openai/gpt-5.1'' (review_messages ''text'' ''critic'') 1500)
       = Inl (Exception ''HTTP 503 from openai/gpt-5.1'')
   \<and> all_fallbacks_fail failing_env HEX_FALLBACK_MODELS (review_messages ''text'' ''critic'')
        1500 [payload ''openai/gpt-5.1'' (review_messages ''text'' ''critic'') 1500]
   \<and> map req_model (sent (snd (get_review (hex_config (Some ''key'')) failing_env ''text''
          ''critic'' ''openai/gpt-5.1'' empty_world)))
       = [''openai/gpt-5.1'', ''x-ai/grok-4.1-fast:free'', ''anthropic/claude-haiku-4.5'',
          ''openai/gpt-5-nano'']"
proof -
  let ?C = "hex_config (Some ''key'')"
  let ?g = "payload ''x-ai/grok-4.1-fast:free''
              (review_messages ''text'' (r_persona (HEX_REVIEWERS ! 3))) 1500"
  let ?p = "payload ''openai/gpt-5.1'' (review_messages ''text'' ''critic'') 1500"
  have h: "server flaky_env (sent empty_world) ?g = Inl (Exception ''HTTP 429 rate limited'')"
    by (simp add: flaky_env_def empty_world_def)
  have f: "server failing_env (sent empty_world) ?p
             = Inl (Exception ''HTTP 503 from openai/gpt-5.1'')"
    by (simp add: failing_env_def payload_def)
  have a: "all_fallbacks_fail failing_env HEX_FALLBACK_MODELS
             (review_messages ''text'' ''critic'') 1500 [?p]"
    by (simp add: failing_env_def HEX_FALLBACK_MODELS_def)
  have a': "all_fallbacks_fail failing_env (FALLBACK_MODELS ?C)
             (review_messages ''text'' ''critic'') 1500 (sent empty_world @ [?p])"
    using a by (simp add: hex_config_def empty_world_def)
  note t = fallback_attempts_in_listed_order
             [where key = "Some ''key''" and C'' = ?C and E'' = failing_env
                and w'' = empty_world and content'' = "''text''" and persona'' = "''critic''"
                and model'' = "''openai/gpt-5.1''"
                and e'' = "Exception ''HTTP 503 from openai/gpt-5.1''"]
  from t [THEN conjunct2, THEN conjunct1, THEN mp, OF h]
  have g2: "take 2 (drop (length (sent empty_world))
       (sent (snd (get_review ?C flaky_env ''text'' (r_persona (HEX_REVIEWERS ! 3))
                     (r_model (HEX_REVIEWERS ! 3)) empty_world)))) = [?g, ?g]"
    by (rule conjunct2)
  from t [THEN conjunct1, THEN mp, of flaky_env empty_world "''x-ai/grok-4.1-fast:free''"
            "''text''" "r_persona (HEX_REVIEWERS ! 3)" "Exception ''HTTP 429 rate limited''" ?C,
          OF h]
  obtain k where
    s: "sent (snd (get_review ?C flaky_env ''text'' (r_persona (HEX_REVIEWERS ! 3))
                     ''x-ai/grok-4.1-fast:free'' empty_world)) =
          sent empty_world @ ?g #
            map (\<lambda>f. payload f (review_messages ''text'' (r_persona (HEX_REVIEWERS ! 3))) 1500)
              (take k (FALLBACK_MODELS ?C))"
    and p: "all_fallbacks_fail flaky_env (take (k - 1) (FALLBACK_MODELS ?C))
              (review_messages ''text'' (r_persona (HEX_REVIEWERS ! 3))) 1500
              (sent empty_world @ [?g])"
    and m: "min 1 (length (FALLBACK_MODELS ?C)) \<le> k" and kl: "k \<le> length (FALLBACK_MODELS ?C)"
    by blast
  have "k = 1"
  proof (rule ccontr)
    assume "k \<noteq> 1"
    with m kl have "k = 2 \<or> k = 3"
      by (auto simp: hex_config_def HEX_FALLBACK_MODELS_def)
    with p show False
      by (auto simp: hex_config_def HEX_FALLBACK_MODELS_def flaky_env_def empty_world_def)
  qed
  with s have g1: "map req_model (sent (snd (get_review ?C flaky_env ''text''
          (r_persona (HEX_REVIEWERS ! 3)) (r_model (HEX_REVIEWERS ! 3)) empty_world)))
       = [''x-ai/grok-4.1-fast:free'', ''x-ai/grok-4.1-fast:free'']"
    by (simp add: hex_config_def HEX_FALLBACK_MODELS_def HEX_REVIEWERS_def empty_world_def
        payload_def)
  from t [THEN conjunct2, THEN conjunct2, THEN mp, OF conjI [OF _ a']] f
  have "sent (snd (get_review ?C failing_env ''text'' ''critic'' ''openai/gpt-5.1''
                     empty_world)) =
          sent empty_world @ ?p #
            map (\<lambda>f. payload f (review_messages ''text'' ''critic'') 1500) (FALLBACK_MODELS ?C)"
    by simp
  then have g3: "map req_model (sent (snd (get_review ?C failing_env ''text''
          ''critic'' ''openai/gpt-5.1'' empty_world)))
       = [''openai/gpt-5.1'', ''x-ai/grok-4.1-fast:free'', ''anthropic/claude-haiku-4.5'',
          ''openai/gpt-5-nano'']"
    by (simp add: hex_config_def HEX_FALLBACK_MODELS_def empty_world_def payload_def)
  from h g2 g1 f a g3 show ?thesis by blast
qed

section \<open>The review loop\<close>

lemma collect_reviews_step:
  "collect_reviews C E content (reviewer # rest) reviews w =
     collect_reviews C E content rest
       (reviews @ [case fst (get_review C E content (r_persona reviewer) (r_model reviewer) w) of
                     Inr review \<Rightarrow> review
                   | Inl e \<Rightarrow> ''Review failed: '' @ str_exn e])
       (snd (get_review C E content (r_persona reviewer) (r_model reviewer) w))"
  by (simp split: prod.splits sum.splits)

lemma collect_reviews_acc:
  "collect_reviews C E content panel reviews w =
     (reviews @ fst (collect_reviews C E content panel [] w),
      snd (collect_reviews C E content panel [] w))"
proof (induction panel arbitrary: reviews w)
  case Nil
  then show ?case by simp
next
  case (Cons reviewer rest)
  show ?case
    unfolding collect_reviews_step
    by (subst Cons.IH, subst (2 3) Cons.IH) simp
qed

lemma collect_reviews_snoc:
  "collect_reviews C E content (panel @ [reviewer]) reviews w =
     (fst (collect_reviews C E content panel reviews w) @
        [case fst (get_review C E content (r_persona reviewer) (r_model reviewer)
                     (snd (collect_reviews C E content panel reviews w))) of
           Inr review \<Rightarrow> review
         | Inl e \<Rightarrow> ''Review failed: '' @ str_exn e],
      snd (get_review C E content (r_persona reviewer) (r_model reviewer)
             (snd (collect_reviews C E content panel reviews w))))"
proof (induction panel arbitrary: reviews w)
  case Nil
  show ?case unfolding append_Nil collect_reviews_step by simp
next
  case (Cons a panel)
  show ?case unfolding append_Cons collect_reviews_step Cons.IH by simp
qed

lemma collect_reviews_length:
  "length (fst (collect_reviews C E content panel reviews w)) = length reviews + length panel"
proof (induction panel arbitrary: reviews w)
  case Nil
  then show ?case by simp
next
  case (Cons reviewer rest)
  show ?case unfolding collect_reviews_step Cons.IH by simp
qed

lemma collect_reviews_nth:
  "i < length panel \<Longrightarrow>
   fst (collect_reviews C E content panel [] w) ! i =
     (case fst (get_review C E content (r_persona (panel ! i)) (r_model (panel ! i))
                  (snd (collect_reviews C E content (take i panel) [] w))) of
        Inr review \<Rightarrow> review
      | Inl e \<Rightarrow> ''Review failed: '' @ str_exn e)"
proof (induction panel arbitrary: i rule: rev_induct)
  case Nil
  then show ?case by simp
next
  case (snoc reviewer panel)
  show ?case
  proof (cases "i < length panel")
    case True
    with snoc.IH [of i] show ?thesis
      by (simp add: collect_reviews_snoc nth_append collect_reviews_length)
  next
    case False
    with snoc.prems have "i = length panel" by simp
    then show ?thesis
      by (simp add: collect_reviews_snoc nth_append collect_reviews_length)
  qed
qed

lemma collect_reviews_plus_step:
  "collect_reviews_plus C E content (reviewer # rest) reviews w =
     collect_reviews_plus C E content rest
       (reviews @ [case fst (get_review_plus C E content reviewer w) of
                     Inr review \<Rightarrow> review
                   | Inl e \<Rightarrow> ''Review failed: '' @ str_exn e])
       (snd (get_review_plus C E content reviewer w))"
  by (simp split: prod.splits sum.splits)

lemma collect_reviews_plus_acc:
  "collect_reviews_plus C E content panel reviews w =
     (reviews @ fst (collect_reviews_plus C E content panel [] w),
      snd (collect_reviews_plus C E content panel [] w))"
proof (induction panel arbitrary: reviews w)
  case Nil
  then show ?case by simp
next
  case (Cons reviewer rest)
  show ?case
    unfolding collect_reviews_plus_step
    by (subst Cons.IH, subst (2 3) Cons.IH) simp
qed

lemma collect_reviews_plus_snoc:
  "collect_reviews_plus C E content (panel @ [reviewer]) reviews w =
     (fst (collect_reviews_plus C E content panel reviews w) @
        [case fst (get_review_plus C E content reviewer
                     (snd (collect_reviews_plus C E content panel reviews w))) of
           Inr review \<Rightarrow> review
         | Inl e \<Rightarrow> ''Review failed: '' @ str_exn e],
      snd (get_review_plus C E content reviewer
             (snd (collect_reviews_plus C E content panel reviews w))))"
proof (induction panel arbitrary: reviews w)
  case Nil
  show ?case unfolding append_Nil collect_reviews_plus_step by simp
next
  case (Cons a panel)
  show ?case unfolding append_Cons collect_reviews_plus_step Cons.IH by simp
qed

lemma collect_reviews_plus_length:
  "length (fst (collect_reviews_plus C E content panel reviews w)) = length reviews + length panel"
proof (induction panel arbitrary: reviews w)
  case Nil
  then show ?case by simp
next
  case (Cons reviewer rest)
  show ?case unfolding collect_reviews_plus_step Cons.IH by simp
qed

lemma collect_reviews_plus_nth:
  "i < length panel \<Longrightarrow>
   fst (collect_reviews_plus C E content panel [] w) ! i =
     (case fst (get_review_plus C E content (panel ! i)
                  (snd (collect_reviews_plus C E content (take i panel) [] w))) of
        Inr review \<Rightarrow> review
      | Inl e \<Rightarrow> ''Review failed: '' @ str_exn e)"
proof (induction panel arbitrary: i rule: rev_induct)
  case Nil
  then show ?case by simp
next
  case (snoc reviewer panel)
  show ?case
  proof (cases "i < length panel")
    case True
    with snoc.IH [of i] show ?thesis
      by (simp add: collect_reviews_plus_snoc nth_append collect_reviews_plus_length)
  next
    case False
    with snoc.prems have "i = length panel" by simp
    then show ?thesis
      by (simp add: collect_reviews_plus_snoc nth_append collect_reviews_plus_length)
  qed
qed

lemma fallback_loop_files:
  "files (snd (fallback_loop E fbs messages mt e w)) = files w"
  by (induction fbs arbitrary: w)
     (auto simp: openrouter_request_def split: sum.splits prod.splits)

lemma request_with_fallback_files:
  "files (snd (request_with_fallback C E model messages mt w)) = files w"
  by (simp add: request_with_fallback_def openrouter_request_def fallback_loop_files
      split: sum.splits)

lemma collect_reviews_files:
  "files (snd (collect_reviews C E content panel reviews w)) = files w"
proof (induction panel arbitrary: reviews w)
  case Nil
  then show ?case by simp
next
  case (Cons reviewer rest)
  show ?case
    unfolding collect_reviews_step Cons.IH
    by (simp add: get_review_def request_with_fallback_files)
qed

lemma collect_reviews_plus_files:
  "files (snd (collect_reviews_plus C E content panel reviews w)) = files w"
proof (induction panel arbitrary: reviews w)
  case Nil
  then show ?case by simp
next
  case (Cons reviewer rest)
  show ?case
    unfolding collect_reviews_plus_step Cons.IH
    by (simp add: get_review_plus_def request_with_fallback_files)
qed

text \<open>
  Claim C4. For every panel the review loop yields exactly one result for each
  reviewer, in panel order, however many requests fail: entry \<open>i\<close> is the review that
  \<open>get_review\<close> returns for reviewer \<open>i\<close> in the world left by the reviewers before it
  or, when \<open>get_review\<close> raises (the primary model and every fallback failed), the
  placeholder \<open>Review failed: \<close> followed by the cause; the loop goes on to the
  remaining reviewers in both cases. In \<open>trial_by_hex.py\<close> and \<open>trial_by_hex_plus.py\<close>.
\<close>

theorem dispatch_one_result_per_reviewer:
  "length (fst (collect_reviews C E content panel [] w)) = length panel
   \<and> (\<forall>i<length panel.
        fst (collect_reviews C E content panel [] w) ! i =
          (case fst (get_review C E content (r_persona (panel ! i)) (r_model (panel ! i))
                       (snd (collect_reviews C E content (take i panel) [] w))) of
             Inr review \<Rightarrow> review
           | Inl e \<Rightarrow> ''Review failed: '' @ str_exn e))
   \<and> length (fst (collect_reviews_plus C E content panel [] w)) = length panel
   \<and> (\<forall>i<length panel.
        fst (collect_reviews_plus C E content panel [] w) ! i =
          (case fst (get_review_plus C E content (panel ! i)
                       (snd (collect_reviews_plus C E content (take i panel) [] w))) of
             Inr review \<Rightarrow> review
           | Inl e \<Rightarrow> ''Review failed: '' @ str_exn e))"
  by (simp add: collect_reviews_length collect_reviews_plus_length collect_reviews_nth
      collect_reviews_plus_nth)

theorem dispatch_one_result_per_reviewer_witness:
  "(3::nat) < length HEX_REVIEWERS
   \<and> length (fst (collect_reviews (hex_config (Some ''key'')) sonnet_only_env ''text''
                   HEX_REVIEWERS [] empty_world)) = 6
   \<and> fst (collect_reviews (hex_config (Some ''key'')) sonnet_only_env ''text''
           HEX_REVIEWERS [] empty_world) ! 3
       = ''Review failed: HTTP 503 from x-ai/grok-4.1-fast:free''
   \<and> fst (collect_reviews (hex_config (Some ''key'')) sonnet_only_env ''text''
           HEX_REVIEWERS [] empty_world) ! 0 = ''sound''
   \<and> fst (collect_reviews_plus (hex_config (Some ''key'')) sonnet_only_env ''text''
           HEX_REVIEWERS [] empty_world) ! 3
       = ''Review failed: HTTP 503 from x-ai/grok-4.1-fast:free''"
proof -
  have hex: "fst (collect_reviews (hex_config (Some ''key'')) sonnet_only_env ''text''
                    HEX_REVIEWERS [] empty_world) =
     [''sound'',
      ''Review failed: HTTP 503 from openai/gpt-5.1'',
      ''Review failed: HTTP 503 from google/gemini-3-pro-preview'',
      ''Review failed: HTTP 503 from x-ai/grok-4.1-fast:free'',
      ''Review failed: HTTP 503 from deepseek/deepseek-chat-v3.1'',
      ''Review failed: HTTP 503 from openai/gpt-5-mini'']"
    by (simp add: HEX_REVIEWERS_def hex_config_def HEX_FALLBACK_MODELS_def get_review_def
        request_with_fallback_def openrouter_request_def sonnet_only_env_def
        empty_world_def payload_def)
  have plus: "fst (collect_reviews_plus (hex_config (Some ''key'')) sonnet_only_env ''text''
                     HEX_REVIEWERS [] empty_world) =
     [''sound'',
      ''Review failed: HTTP 503 from openai/gpt-5.1'',
      ''Review failed: HTTP 503 from google/gemini-3-pro-preview'',
      ''Review failed: HTTP 503 from x-ai/grok-4.1-fast:free'',
      ''Review failed: HTTP 503 from deepseek/deepseek-chat-v3.1'',
      ''Review failed: HTTP 503 from openai/gpt-5-mini'']"
    by (simp add: HEX_REVIEWERS_def hex_config_def HEX_FALLBACK_MODELS_def
        get_review_plus_def request_with_fallback_def openrouter_request_def
        sonnet_only_env_def empty_world_def payload_def)
  have n: "length HEX_REVIEWERS = 6"
    by (simp add: HEX_REVIEWERS_def)
  from dispatch_one_result_per_reviewer
         [of "hex_config (Some ''key'')" sonnet_only_env "''text''" HEX_REVIEWERS empty_world]
  have "length (fst (collect_reviews (hex_config (Some ''key'')) sonnet_only_env ''text''
                       HEX_REVIEWERS [] empty_world)) = length HEX_REVIEWERS"
    by (rule conjunct1)
  then show ?thesis
    unfolding n by (simp add: hex plus)
qed

section \<open>Complete runs\<close>

lemma individual_sections_total:
  "i + length rs \<le> length reviewers \<Longrightarrow> \<exists>s. individual_sections reviewers i rs = Inr s"
proof (induction rs arbitrary: i)
  case Nil
  then show ?case by simp
next
  case (Cons r rs)
  from Cons.prems have "Suc i + length rs \<le> length reviewers" by simp
  from Cons.IH [OF this] obtain s where "individual_sections reviewers (Suc i) rs = Inr s" ..
  with Cons.prems show ?case by simp
qed

lemma trial_by_hex_synthesis_fails:
  assumes "\<not> api_key_missing (OPENROUTER_API_KEY C)"
    and "files w (resolve E input_file) = Some (Inr content)"
    and "server E (sent (snd (collect_reviews C E content (REVIEWERS C) [] w)))
           (payload SYNTHESIS_MODEL
              (synthesis_messages (fst (collect_reviews C E content (REVIEWERS C) [] w))) 2000)
         = Inl e"
  shows "trial_by_hex C E input_file output_file w =
           (Inl e, (snd (collect_reviews C E content (REVIEWERS C) [] w))
              \<lparr>sent := sent (snd (collect_reviews C E content (REVIEWERS C) [] w)) @
                 [payload SYNTHESIS_MODEL
                    (synthesis_messages (fst (collect_reviews C E content (REVIEWERS C) [] w)))
                    2000]\<rparr>)"
  using assms
  by (simp add: trial_by_hex_def synthesize_reviews_def openrouter_request_def split_beta)

lemma trial_by_hex_completes:
  assumes "\<not> api_key_missing (OPENROUTER_API_KEY C)"
    and "files w (resolve E input_file) = Some (Inr content)"
    and "server E (sent (snd (collect_reviews C E content (REVIEWERS C) [] w)))
           (payload SYNTHESIS_MODEL
              (synthesis_messages (fst (collect_reviews C E content (REVIEWERS C) [] w))) 2000)
         = Inr synthesis"
    and "mkdir_error E (resolve E output_file) = None"
    and "write_error E (resolve E output_file) = None"
  shows "\<exists>sections.
           individual_sections (REVIEWERS C) 0
             (fst (collect_reviews C E content (REVIEWERS C) [] w)) = Inr sections \<and>
           trial_by_hex C E input_file output_file w =
           (Inr (result_dict (passed_hex E synthesis) synthesis),
            (snd (collect_reviews C E content (REVIEWERS C) [] w))
              \<lparr>sent := sent (snd (collect_reviews C E content (REVIEWERS C) [] w)) @
                 [payload SYNTHESIS_MODEL
                    (synthesis_messages (fst (collect_reviews C E content (REVIEWERS C) [] w)))
                    2000],
               files := (files w)(resolve E output_file \<mapsto>
                 Inr (report_head (last (split_char CHR ''/'' (resolve E input_file)))
                        (now_isoformat E) (passed_hex E synthesis) synthesis @ sections))\<rparr>)"
proof -
  have "0 + length (fst (collect_reviews C E content (REVIEWERS C) [] w)) \<le> length (REVIEWERS C)"
    by (simp add: collect_reviews_length)
  from individual_sections_total [OF this] obtain sections where
    s: "individual_sections (REVIEWERS C) 0
          (fst (collect_reviews C E content (REVIEWERS C) [] w)) = Inr sections" ..
  show ?thesis
    using assms s
    by (intro exI [where x = sections])
       (simp add: trial_by_hex_def synthesize_reviews_def openrouter_request_def
          collect_reviews_files split_beta Let_def)
qed


lemma trial_by_hex_plus_synthesis_fails:
  assumes "\<not> api_key_missing (OPENROUTER_API_KEY C)"
    and "files w (resolve E input_file) = Some (Inr content)"
    and "server E (sent (snd (collect_reviews_plus C E content (REVIEWERS C) [] w)))
           (payload SYNTHESIS_MODEL
              (synthesis_messages_plus
                 (fst (collect_reviews_plus C E content (REVIEWERS C) [] w)) (REVIEWERS C)) 3000)
         = Inl e"
  shows "trial_by_hex_plus C E input_file output_file w =
           (Inl e, (snd (collect_reviews_plus C E content (REVIEWERS C) [] w))
              \<lparr>sent := sent (snd (collect_reviews_plus C E content (REVIEWERS C) [] w)) @
                 [payload SYNTHESIS_MODEL
                    (synthesis_messages_plus
                       (fst (collect_reviews_plus C E content (REVIEWERS C) [] w))
                       (REVIEWERS C)) 3000]\<rparr>)"
  using assms
  by (simp add: trial_by_hex_plus_def synthesize_reviews_plus_def openrouter_request_def
      split_beta)

lemma trial_by_hex_plus_completes:
  assumes "\<not> api_key_missing (OPENROUTER_API_KEY C)"
    and "files w (resolve E input_file) = Some (Inr content)"
    and "server E (sent (snd (collect_reviews_plus C E content (REVIEWERS C) [] w)))
           (payload SYNTHESIS_MODEL
              (synthesis_messages_plus
                 (fst (collect_reviews_plus C E content (REVIEWERS C) [] w)) (REVIEWERS C)) 3000)
         = Inr synthesis"
    and "mkdir_error E (resolve E output_file) = None"
    and "write_error E (resolve E output_file) = None"
  shows "trial_by_hex_plus C E input_file output_file w =
           (Inr (result_dict (passed_plus E synthesis) synthesis),
            (snd (collect_reviews_plus C E content (REVIEWERS C) [] w))
              \<lparr>sent := sent (snd (collect_reviews_plus C E content (REVIEWERS C) [] w)) @
                 [payload SYNTHESIS_MODEL
                    (synthesis_messages_plus
                       (fst (collect_reviews_plus C E content (REVIEWERS C) [] w))
                       (REVIEWERS C)) 3000],
               files := (files w)(resolve E output_file \<mapsto>
                 Inr (report_plus (last (split_char CHR ''/'' (resolve E input_file)))
                        (now_isoformat E) (passed_plus E synthesis) synthesis
                        (individual_reviews_plus 0
                           (fst (collect_reviews_plus C E content (REVIEWERS C) [] w))
                           (REVIEWERS C))))\<rparr>)"
  using assms
  by (simp add: trial_by_hex_plus_def synthesize_reviews_plus_def openrouter_request_def
      collect_reviews_plus_files split_beta Let_def)

text \<open>
  Claim C6. When the synthesis request fails, the run raises that failure to its caller
  and writes nothing: the files are those of the start, so there is no empty or partial
  report; in \<open>trial_by_hex.py\<close> and in \<open>trial_by_hex_plus.py\<close>.
\<close>

theorem synthesis_failure_is_terminal:
  "(\<not> api_key_missing (OPENROUTER_API_KEY C) \<and>
    files w (resolve E input_file) = Some (Inr content) \<and>
    server E (sent (snd (collect_reviews C E content (REVIEWERS C) [] w)))
      (payload SYNTHESIS_MODEL
         (synthesis_messages (fst (collect_reviews C E content (REVIEWERS C) [] w))) 2000)
      = Inl e
    \<longrightarrow> fst (trial_by_hex C E input_file output_file w) = Inl e \<and>
        files (snd (trial_by_hex C E input_file output_file w)) = files w)
   \<and>
   (\<not> api_key_missing (OPENROUTER_API_KEY C') \<and>
    files w' (resolve E' input_file') = Some (Inr content') \<and>
    server E' (sent (snd (collect_reviews_plus C' E' content' (REVIEWERS C') [] w')))
      (payload SYNTHESIS_MODEL
         (synthesis_messages_plus
            (fst (collect_reviews_plus C' E' content' (REVIEWERS C') [] w')) (REVIEWERS C'))
         3000)
      = Inl e'
    \<longrightarrow> fst (trial_by_hex_plus C' E' input_file' output_file' w') = Inl e' \<and>
        files (snd (trial_by_hex_plus C' E' input_file' output_file' w')) = files w')"
  by (simp add: trial_by_hex_synthesis_fails trial_by_hex_plus_synthesis_fails
      collect_reviews_files collect_reviews_plus_files)

theorem synthesis_failure_is_terminal_witness:
  "fst (trial_by_hex (hex_config (Some ''key'')) sonnet_only_env ''in.md'' ''out.md'' doc_world)
     = Inl (Exception ''HTTP 503 from anthropic/claude-opus-4.5'')
   \<and> files (snd (trial_by_hex (hex_config (Some ''key'')) sonnet_only_env ''in.md'' ''out.md''
                    doc_world)) = files doc_world
   \<and> fst (trial_by_hex_plus (hex_config (Some ''key'')) sonnet_only_env ''in.md'' ''out.md''
            doc_world)
     = Inl (Exception ''HTTP 503 from anthropic/claude-opus-4.5'')
   \<and> files (snd (trial_by_hex_plus (hex_config (Some ''key'')) sonnet_only_env ''in.md''
                    ''out.md'' doc_world)) = files doc_world
   \<and> files doc_world ''out.md'' = None"
proof -
  have k: "\<not> api_key_missing (OPENROUTER_API_KEY (hex_config (Some ''key'')))"
    by (simp add: hex_config_def api_key_missing_def)
  have f: "files doc_world (resolve sonnet_only_env ''in.md'') = Some (Inr ''text'')"
    by (simp add: doc_world_def sonnet_only_env_def)
  have s: "server sonnet_only_env h (payload SYNTHESIS_MODEL ms n)
             = Inl (Exception ''HTTP 503 from anthropic/claude-opus-4.5'')" for h ms n
    by (simp add: sonnet_only_env_def payload_def SYNTHESIS_MODEL_def)
  from synthesis_failure_is_terminal
         [where C = "hex_config (Some ''key'')" and E = sonnet_only_env and w = doc_world
            and input_file = "''in.md''" and output_file = "''out.md''" and content = "''text''"
            and e = "Exception ''HTTP 503 from anthropic/claude-opus-4.5''"
            and C' = "hex_config (Some ''key'')" and E' = sonnet_only_env and w' = doc_world
            and input_file' = "''in.md''" and output_file' = "''out.md''"
            and content' = "''text''"
            and e' = "Exception ''HTTP 503 from anthropic/claude-opus-4.5''"]
  show ?thesis
    using k f s by (simp add: doc_world_def)
qed

text \<open>
  Claim C9. In a run whose synthesis request is answered (and whose report can be
  written), the value returned is a dictionary with exactly the keys \<open>passed\<close> and
  \<open>synthesis\<close>, holding the verdict and the answer of the synthesis request. The report
  written is the text below: its Verdict line carries the passed label when the
  returned \<open>passed\<close> is true and the other label when it is false, and its synthesized
  review is the returned \<open>synthesis\<close>; in both scripts.
\<close>

theorem report_agrees_with_result:
  "(\<not> api_key_missing (OPENROUTER_API_KEY C) \<and>
    files w (resolve E input_file) = Some (Inr content) \<and>
    server E (sent (snd (collect_reviews C E content (REVIEWERS C) [] w)))
      (payload SYNTHESIS_MODEL
         (synthesis_messages (fst (collect_reviews C E content (REVIEWERS C) [] w))) 2000)
      = Inr synthesis \<and>
    mkdir_error E (resolve E output_file) = None \<and>
    write_error E (resolve E output_file) = None
    \<longrightarrow> (\<exists>d passed sections.
          fst (trial_by_hex C E input_file output_file w) = Inr d \<and>
          dom d = {''passed'', ''synthesis''} \<and>
          d ''passed'' = Some (PyBool passed) \<and>
          d ''synthesis'' = Some (PyStr synthesis) \<and>
          passed = passed_hex E synthesis \<and>
          individual_sections (REVIEWERS C) 0
            (fst (collect_reviews C E content (REVIEWERS C) [] w)) = Inr sections \<and>
          files (snd (trial_by_hex C E input_file output_file w)) (resolve E output_file) =
            Some (Inr
              (''# Trial by Hex Review\<newline>'' @
               ''\<newline>'' @
               ''**Document:** '' @ last (split_char CHR ''/'' (resolve E input_file)) @ ''\<newline>'' @
               ''**Date:** '' @ now_isoformat E @ ''\<newline>'' @
               ''**Verdict:** '' @
                 (if passed then [CHR 0xE2, CHR 0x9C, CHR 0x93] @ '' PASSED''
                  else [CHR 0xE2, CHR 0x9A, CHR 0xA0] @ '' NEEDS REVISION'') @ ''\<newline>'' @
               ''**Reviewers:** 6 diverse AI models via OpenRouter\<newline>'' @
               ''\<newline>'' @
               ''---\<newline>'' @
               ''\<newline>'' @
               ''## Synthesized Review\<newline>'' @
               ''\<newline>'' @
               synthesis @ ''\<newline>'' @
               ''\<newline>'' @
               ''---\<newline>'' @
               ''\<newline>'' @
               ''## Individual Reviews\<newline>'' @
               ''\<newline>'' @
               sections))))
   \<and>
   (\<not> api_key_missing (OPENROUTER_API_KEY C') \<and>
    files w' (resolve E' input_file') = Some (Inr content') \<and>
    server E' (sent (snd (collect_reviews_plus C' E' content' (REVIEWERS C') [] w')))
      (payload SYNTHESIS_MODEL
         (synthesis_messages_plus
            (fst (collect_reviews_plus C' E' content' (REVIEWERS C') [] w')) (REVIEWERS C'))
         3000)
      = Inr synthesis' \<and>
    mkdir_error E' (resolve E' output_file') = None \<and>
    write_error E' (resolve E' output_file') = None
    \<longrightarrow> (\<exists>d passed individual_reviews.
          fst (trial_by_hex_plus C' E' input_file' output_file' w') = Inr d \<and>
          dom d = {''passed'', ''synthesis''} \<and>
          d ''passed'' = Some (PyBool passed) \<and>
          d ''synthesis'' = Some (PyStr synthesis') \<and>
          passed = passed_plus E' synthesis' \<and>
          individual_reviews =
            individual_reviews_plus 0
              (fst (collect_reviews_plus C' E' content' (REVIEWERS C') [] w')) (REVIEWERS C') \<and>
          files (snd (trial_by_hex_plus C' E' input_file' output_file' w'))
              (resolve E' output_file') =
            Some (Inr
              (''# Trial by Hex+ Review\<newline>'' @
               ''\<newline>'' @
               ''**Document:** '' @ last (split_char CHR ''/'' (resolve E' input_file')) @ ''\<newline>'' @
               ''**Date:** '' @ now_isoformat E' @ ''\<newline>'' @
               ''**Verdict:** '' @ (if passed then ''PASSED'' else ''NEEDS REVISION'') @ ''\<newline>'' @
               ''**Reviewers:** 12 specialized AI reviewers via OpenRouter\<newline>'' @
               ''\<newline>'' @
               ''---\<newline>'' @
               ''\<newline>'' @
               ''## Synthesized Review\<newline>'' @
               ''\<newline>'' @
               synthesis' @ ''\<newline>'' @
               ''\<newline>'' @
               ''---\<newline>'' @
               ''\<newline>'' @
               ''## Individual Reviews\<newline>'' @
               ''\<newline>'' @
               individual_reviews @ ''\<newline>''))))"
proof (intro conjI impI)
  assume a: "\<not> api_key_missing (OPENROUTER_API_KEY C) \<and>
    files w (resolve E input_file) = Some (Inr content) \<and>
    server E (sent (snd (collect_reviews C E content (REVIEWERS C) [] w)))
      (payload SYNTHESIS_MODEL
         (synthesis_messages (fst (collect_reviews C E content (REVIEWERS C) [] w))) 2000)
      = Inr synthesis \<and>
    mkdir_error E (resolve E output_file) = None \<and>
    write_error E (resolve E output_file) = None"
  from a have a1: "\<not> api_key_missing (OPENROUTER_API_KEY C)"
    and a2: "files w (resolve E input_file) = Some (Inr content)"
    and a3: "server E (sent (snd (collect_reviews C E content (REVIEWERS C) [] w)))
      (payload SYNTHESIS_MODEL
         (synthesis_messages (fst (collect_reviews C E content (REVIEWERS C) [] w))) 2000)
      = Inr synthesis"
    and a4: "mkdir_error E (resolve E output_file) = None"
    and a5: "write_error E (resolve E output_file) = None"
    by simp_all
  from trial_by_hex_completes [OF a1 a2 a3 a4 a5]
  obtain sections where
    s: "individual_sections (REVIEWERS C) 0
          (fst (collect_reviews C E content (REVIEWERS C) [] w)) = Inr sections"
    and r: "trial_by_hex C E input_file output_file w =
           (Inr (result_dict (passed_hex E synthesis) synthesis),
            (snd (collect_reviews C E content (REVIEWERS C) [] w))
              \<lparr>sent := sent (snd (collect_reviews C E content (REVIEWERS C) [] w)) @
                 [payload SYNTHESIS_MODEL
                    (synthesis_messages (fst (collect_reviews C E content (REVIEWERS C) [] w)))
                    2000],
               files := (files w)(resolve E output_file \<mapsto>
                 Inr (report_head (last (split_char CHR ''/'' (resolve E input_file)))
                        (now_isoformat E) (passed_hex E synthesis) synthesis @ sections))\<rparr>)"
    by blast
  show "\<exists>d passed sections.
          fst (trial_by_hex C E input_file output_file w) = Inr d \<and>
          dom d = {''passed'', ''synthesis''} \<and>
          d ''passed'' = Some (PyBool passed) \<and>
          d ''synthesis'' = Some (PyStr synthesis) \<and>
          passed = passed_hex E synthesis \<and>
          individual_sections (REVIEWERS C) 0
            (fst (collect_reviews C E content (REVIEWERS C) [] w)) = Inr sections \<and>
          files (snd (trial_by_hex C E input_file output_file w)) (resolve E output_file) =
            Some (Inr
              (''# Trial by Hex Review\<newline>'' @
               ''\<newline>'' @
               ''**Document:** '' @ last (split_char CHR ''/'' (resolve E input_file)) @ ''\<newline>'' @
               ''**Date:** '' @ now_isoformat E @ ''\<newline>'' @
               ''**Verdict:** '' @
                 (if passed then [CHR 0xE2, CHR 0x9C, CHR 0x93] @ '' PASSED''
                  else [CHR 0xE2, CHR 0x9A, CHR 0xA0] @ '' NEEDS REVISION'') @ ''\<newline>'' @
               ''**Reviewers:** 6 diverse AI models via OpenRouter\<newline>'' @
               ''\<newline>'' @
               ''---\<newline>'' @
               ''\<newline>'' @
               ''## Synthesized Review\<newline>'' @
               ''\<newline>'' @
               synthesis @ ''\<newline>'' @
               ''\<newline>'' @
               ''---\<newline>'' @
               ''\<newline>'' @
               ''## Individual Reviews\<newline>'' @
               ''\<newline>'' @
               sections))"
    unfolding r
    by (intro exI [where x = "result_dict (passed_hex E synthesis) synthesis"]
          exI [where x = "passed_hex E synthesis"] exI [where x = sections])
       (auto simp: result_dict_def report_head_def verdict_label_def s)
next
  assume a: "\<not> api_key_missing (OPENROUTER_API_KEY C') \<and>
    files w' (resolve E' input_file') = Some (Inr content') \<and>
    server E' (sent (snd (collect_reviews_plus C' E' content' (REVIEWERS C') [] w')))
      (payload SYNTHESIS_MODEL
         (synthesis_messages_plus
            (fst (collect_reviews_plus C' E' content' (REVIEWERS C') [] w')) (REVIEWERS C'))
         3000)
      = Inr synthesis' \<and>
    mkdir_error E' (resolve E' output_file') = None \<and>
    write_error E' (resolve E' output_file') = None"
  note r = trial_by_hex_plus_completes [of C' w' E' input_file' content' synthesis' output_file']
  show "\<exists>d passed individual_reviews.
          fst (trial_by_hex_plus C' E' input_file' output_file' w') = Inr d \<and>
          dom d = {''passed'', ''synthesis''} \<and>
          d ''passed'' = Some (PyBool passed) \<and>
          d ''synthesis'' = Some (PyStr synthesis') \<and>
          passed = passed_plus E' synthesis' \<and>
          individual_reviews =
            individual_reviews_plus 0
              (fst (collect_reviews_plus C' E' content' (REVIEWERS C') [] w')) (REVIEWERS C') \<and>
          files (snd (trial_by_hex_plus C' E' input_file' output_file' w'))
              (resolve E' output_file') =
            Some (Inr
              (''# Trial by Hex+ Review\<newline>'' @
               ''\<newline>'' @
               ''**Document:** '' @ last (split_char CHR ''/'' (resolve E' input_file')) @ ''\<newline>'' @
               ''**Date:** '' @ now_isoformat E' @ ''\<newline>'' @
               ''**Verdict:** '' @ (if passed then ''PASSED'' else ''NEEDS REVISION'') @ ''\<newline>'' @
               ''**Reviewers:** 12 specialized AI reviewers via OpenRouter\<newline>'' @
               ''\<newline>'' @
               ''---\<newline>'' @
               ''\<newline>'' @
               ''## Synthesized Review\<newline>'' @
               ''\<newline>'' @
               synthesis' @ ''\<newline>'' @
               ''\<newline>'' @
               ''---\<newline>'' @
               ''\<newline>'' @
               ''## Individual Reviews\<newline>'' @
               ''\<newline>'' @
               individual_reviews @ ''\<newline>''))"
    using a
    by (intro exI [where x = "result_dict (passed_plus E' synthesis') synthesis'"]
          exI [where x = "passed_plus E' synthesis'"]
          exI [where x = "individual_reviews_plus 0
                 (fst (collect_reviews_plus C' E' content' (REVIEWERS C') [] w')) (REVIEWERS C')"])
       (auto simp: r result_dict_def report_plus_def verdict_label_plus_def)
qed

lemma passed_ready:
  "passed_hex (answering_env t) ''PASS: ready'' \<and> passed_plus (answering_env t) ''PASS: ready''"
  by (simp add: passed_hex_def passed_plus_def answering_env_def ascii_upper_def
      ascii_upper_char_def)

theorem report_agrees_with_result_witness:
  "(\<exists>d sections.
      fst (trial_by_hex (hex_config (Some ''key'')) (answering_env ''PASS: ready'')
             ''in.md'' ''out.md'' doc_world) = Inr d \<and>
      dom d = {''passed'', ''synthesis''} \<and>
      d ''passed'' = Some (PyBool True) \<and>
      d ''synthesis'' = Some (PyStr ''PASS: ready'') \<and>
      files (snd (trial_by_hex (hex_config (Some ''key'')) (answering_env ''PASS: ready'')
                    ''in.md'' ''out.md'' doc_world)) ''out.md'' =
        Some (Inr
          (''# Trial by Hex Review\<newline>'' @
           ''\<newline>'' @
           ''**Document:** '' @ ''in.md'' @ ''\<newline>'' @
           ''**Date:** '' @ ''2025-01-01T00:00:00'' @ ''\<newline>'' @
           ''**Verdict:** '' @
             (if True then [CHR 0xE2, CHR 0x9C, CHR 0x93] @ '' PASSED''
              else [CHR 0xE2, CHR 0x9A, CHR 0xA0] @ '' NEEDS REVISION'') @ ''\<newline>'' @
           ''**Reviewers:** 6 diverse AI models via OpenRouter\<newline>'' @
           ''\<newline>'' @
           ''---\<newline>'' @
           ''\<newline>'' @
           ''## Synthesized Review\<newline>'' @
           ''\<newline>'' @
           ''PASS: ready'' @ ''\<newline>'' @
           ''\<newline>'' @
           ''---\<newline>'' @
           ''\<newline>'' @
           ''## Individual Reviews\<newline>'' @
           ''\<newline>'' @
           sections)))
   \<and>
   (\<exists>d individual_reviews.
      fst (trial_by_hex_plus (hex_config (Some ''key'')) (answering_env ''PASS: ready'')
             ''in.md'' ''out.md'' doc_world) = Inr d \<and>
      dom d = {''passed'', ''synthesis''} \<and>
      d ''passed'' = Some (PyBool True) \<and>
      d ''synthesis'' = Some (PyStr ''PASS: ready'') \<and>
      files (snd (trial_by_hex_plus (hex_config (Some ''key'')) (answering_env ''PASS: ready'')
                    ''in.md'' ''out.md'' doc_world)) ''out.md'' =
        Some (Inr
          (''# Trial by Hex+ Review\<newline>'' @
           ''\<newline>'' @
           ''**Document:** '' @ ''in.md'' @ ''\<newline>'' @
           ''**Date:** '' @ ''2025-01-01T00:00:00'' @ ''\<newline>'' @
           ''**Verdict:** '' @ (if True then ''PASSED'' else ''NEEDS REVISION'') @ ''\<newline>'' @
           ''**Reviewers:** 12 specialized AI reviewers via OpenRouter\<newline>'' @
           ''\<newline>'' @
           ''---\<newline>'' @
           ''\<newline>'' @
           ''## Synthesized Review\<newline>'' @
           ''\<newline>'' @
           ''PASS: ready'' @ ''\<newline>'' @
           ''\<newline>'' @
           ''---\<newline>'' @
           ''\<newline>'' @
           ''## Individual Reviews\<newline>'' @
           ''\<newline>'' @
           individual_reviews @ ''\<newline>'')))"
proof -
  let ?C = "hex_config (Some ''key'')" and ?E = "answering_env ''PASS: ready''"
  have k: "\<not> api_key_missing (OPENROUTER_API_KEY ?C)"
    by (simp add: hex_config_def api_key_missing_def)
  have f: "files doc_world (resolve ?E ''in.md'') = Some (Inr ''text'')"
    by (simp add: doc_world_def answering_env_def)
  have s: "server ?E h r = Inr ''PASS: ready''" for h r
    by (simp add: answering_env_def)
  have m: "mkdir_error ?E (resolve ?E ''out.md'') = None"
    and wr: "write_error ?E (resolve ?E ''out.md'') = None"
    by (simp_all add: answering_env_def)
  have n: "last (split_char CHR ''/'' (resolve ?E ''in.md'')) = ''in.md''"
    "now_isoformat ?E = ''2025-01-01T00:00:00''" "resolve ?E ''out.md'' = ''out.md''"
    by (simp_all add: answering_env_def)
  have v: "passed_hex ?E ''PASS: ready'' = True" "passed_plus ?E ''PASS: ready'' = True"
    using passed_ready [of "''PASS: ready''"] by simp_all
  note t = report_agrees_with_result
         [where C = ?C and E = ?E and w = doc_world and input_file = "''in.md''"
            and output_file = "''out.md''" and content = "''text''"
            and synthesis = "''PASS: ready''"
            and C' = ?C and E' = ?E and w' = doc_world and input_file' = "''in.md''"
            and output_file' = "''out.md''" and content' = "''text''"
            and synthesis' = "''PASS: ready''"]
  have h1: "\<not> api_key_missing (OPENROUTER_API_KEY ?C) \<and>
    files doc_world (resolve ?E ''in.md'') = Some (Inr ''text'') \<and>
    server ?E (sent (snd (collect_reviews ?C ?E ''text'' (REVIEWERS ?C) [] doc_world)))
      (payload SYNTHESIS_MODEL
         (synthesis_messages (fst (collect_reviews ?C ?E ''text'' (REVIEWERS ?C) [] doc_world)))
         2000)
      = Inr ''PASS: ready'' \<and>
    mkdir_error ?E (resolve ?E ''out.md'') = None \<and>
    write_error ?E (resolve ?E ''out.md'') = None"
    using k f s m wr by blast
  have h2: "\<not> api_key_missing (OPENROUTER_API_KEY ?C) \<and>
    files doc_world (resolve ?E ''in.md'') = Some (Inr ''text'') \<and>
    server ?E (sent (snd (collect_reviews_plus ?C ?E ''text'' (REVIEWERS ?C) [] doc_world)))
      (payload SYNTHESIS_MODEL
         (synthesis_messages_plus
            (fst (collect_reviews_plus ?C ?E ''text'' (REVIEWERS ?C) [] doc_world))
            (REVIEWERS ?C)) 3000)
      = Inr ''PASS: ready'' \<and>
    mkdir_error ?E (resolve ?E ''out.md'') = None \<and>
    write_error ?E (resolve ?E ''out.md'') = None"
    using k f s m wr by blast
  from t [THEN conjunct1, THEN mp, OF h1]
  have hex: "\<exists>d sections.
      fst (trial_by_hex (hex_config (Some ''key'')) (answering_env ''PASS: ready'')
             ''in.md'' ''out.md'' doc_world) = Inr d \<and>
      dom d = {''passed'', ''synthesis''} \<and>
      d ''passed'' = Some (PyBool True) \<and>
      d ''synthesis'' = Some (PyStr ''PASS: ready'') \<and>
      files (snd (trial_by_hex (hex_config (Some ''key'')) (answering_env ''PASS: ready'')
                    ''in.md'' ''out.md'' doc_world)) ''out.md'' =
        Some (Inr
          (''# Trial by Hex Review\<newline>'' @
           ''\<newline>'' @
           ''**Document:** '' @ ''in.md'' @ ''\<newline>'' @
           ''**Date:** '' @ ''2025-01-01T00:00:00'' @ ''\<newline>'' @
           ''**Verdict:** '' @
             (if True then [CHR 0xE2, CHR 0x9C, CHR 0x93] @ '' PASSED''
              else [CHR 0xE2, CHR 0x9A, CHR 0xA0] @ '' NEEDS REVISION'') @ ''\<newline>'' @
           ''**Reviewers:** 6 diverse AI models via OpenRouter\<newline>'' @
           ''\<newline>'' @
           ''---\<newline>'' @
           ''\<newline>'' @
           ''## Synthesized Review\<newline>'' @
           ''\<newline>'' @
           ''PASS: ready'' @ ''\<newline>'' @
           ''\<newline>'' @
           ''---\<newline>'' @
           ''\<newline>'' @
           ''## Individual Reviews\<newline>'' @
           ''\<newline>'' @
           sections))"
    unfolding n v by (elim exE conjE, hypsubst) (intro exI conjI, assumption+)
  from t [THEN conjunct2, THEN mp, OF h2]
  have plus: "\<exists>d individual_reviews.
      fst (trial_by_hex_plus (hex_config (Some ''key'')) (answering_env ''PASS: ready'')
             ''in.md'' ''out.md'' doc_world) = Inr d \<and>
      dom d = {''passed'', ''synthesis''} \<and>
      d ''passed'' = Some (PyBool True) \<and>
      d ''synthesis'' = Some (PyStr ''PASS: ready'') \<and>
      files (snd (trial_by_hex_plus (hex_config (Some ''key'')) (answering_env ''PASS: ready'')
                    ''in.md'' ''out.md'' doc_world)) ''out.md'' =
        Some (Inr
          (''# Trial by Hex+ Review\<newline>'' @
           ''\<newline>'' @
           ''**Document:** '' @ ''in.md'' @ ''\<newline>'' @
           ''**Date:** '' @ ''2025-01-01T00:00:00'' @ ''\<newline>'' @
           ''**Verdict:** '' @ (if True then ''PASSED'' else ''NEEDS REVISION'') @ ''\<newline>'' @
           ''**Reviewers:** 12 specialized AI reviewers via OpenRouter\<newline>'' @
           ''\<newline>'' @
           ''---\<newline>'' @
           ''\<newline>'' @
           ''## Synthesized Review\<newline>'' @
           ''\<newline>'' @
           ''PASS: ready'' @ ''\<newline>'' @
           ''\<newline>'' @
           ''---\<newline>'' @
           ''\<newline>'' @
           ''## Individual Reviews\<newline>'' @
           ''\<newline>'' @
           individual_reviews @ ''\<newline>''))"
    unfolding n v by (elim exE conjE, hypsubst) (intro exI conjI, assumption+)
  from hex plus show ?thesis by (rule conjI)
qed

section \<open>The verdict\<close>

lemma rejecting_text_verdicts:
  "passed_hex (answering_env t) rejecting_text
   \<and> \<not> passed_plus (answering_env t) rejecting_text
   \<and> str_in ''REJECT'' (ascii_upper rejecting_text)"
  by (simp add: passed_hex_def passed_plus_def answering_env_def ascii_upper_def
      ascii_upper_char_def rejecting_text_def)

text \<open>
  Claim C1 (a defect of \<open>trial_by_hex.py\<close>). The claim asks that a synthesis text
  containing \<open>reject\<close> is never classed as passed. The verdict of \<open>trial_by_hex\<close> tests
  \<open>PASS\<close> only: on a synthesis that rejects the document and contains the word PASS, the
  run returns \<open>passed = True\<close> and writes the passed label, where \<open>trial_by_hex_plus\<close>,
  which also tests \<open>REJECT\<close>, returns \<open>passed = False\<close> on the same answer.
\<close>

theorem rejecting_synthesis_classed_as_passed:
  "str_in ''REJECT'' (ascii_upper rejecting_text)
   \<and> fst (trial_by_hex (hex_config (Some ''key'')) (answering_env rejecting_text)
            ''in.md'' ''out.md'' doc_world) = Inr (result_dict True rejecting_text)
   \<and> (\<exists>sections.
        files (snd (trial_by_hex (hex_config (Some ''key'')) (answering_env rejecting_text)
                      ''in.md'' ''out.md'' doc_world)) ''out.md'' =
          Some (Inr (report_head ''in.md'' ''2025-01-01T00:00:00'' True rejecting_text
                     @ sections)))
   \<and> fst (trial_by_hex_plus (hex_config (Some ''key'')) (answering_env rejecting_text)
            ''in.md'' ''out.md'' doc_world) = Inr (result_dict False rejecting_text)"
proof -
  let ?C = "hex_config (Some ''key'')" and ?E = "answering_env rejecting_text"
  have k: "\<not> api_key_missing (OPENROUTER_API_KEY ?C)"
    by (simp add: hex_config_def api_key_missing_def)
  have f: "files doc_world (resolve ?E ''in.md'') = Some (Inr ''text'')"
    by (simp add: doc_world_def answering_env_def)
  have s: "server ?E h r = Inr rejecting_text" for h r
    by (simp add: answering_env_def)
  have m: "mkdir_error ?E (resolve ?E ''out.md'') = None"
    and wr: "write_error ?E (resolve ?E ''out.md'') = None"
    by (simp_all add: answering_env_def)
  have n: "last (split_char CHR ''/'' (resolve ?E ''in.md'')) = ''in.md''"
    "now_isoformat ?E = ''2025-01-01T00:00:00''" "resolve ?E ''out.md'' = ''out.md''"
    by (simp_all add: answering_env_def)
  from trial_by_hex_completes [OF k f s m wr]
  obtain sections where
    "trial_by_hex ?C ?E ''in.md'' ''out.md'' doc_world =
       (Inr (result_dict (passed_hex ?E rejecting_text) rejecting_text),
        (snd (collect_reviews ?C ?E ''text'' (REVIEWERS ?C) [] doc_world))
          \<lparr>sent := sent (snd (collect_reviews ?C ?E ''text'' (REVIEWERS ?C) [] doc_world)) @
             [payload SYNTHESIS_MODEL
                (synthesis_messages (fst (collect_reviews ?C ?E ''text'' (REVIEWERS ?C) []
                   doc_world))) 2000],
           files := (files doc_world)(resolve ?E ''out.md'' \<mapsto>
             Inr (report_head (last (split_char CHR ''/'' (resolve ?E ''in.md'')))
                    (now_isoformat ?E) (passed_hex ?E rejecting_text) rejecting_text
                  @ sections))\<rparr>)"
    by blast
  then have hex:
    "fst (trial_by_hex ?C ?E ''in.md'' ''out.md'' doc_world) = Inr (result_dict True rejecting_text)"
    "\<exists>sections. files (snd (trial_by_hex ?C ?E ''in.md'' ''out.md'' doc_world)) ''out.md'' =
          Some (Inr (report_head ''in.md'' ''2025-01-01T00:00:00'' True rejecting_text
                     @ sections))"
    using rejecting_text_verdicts [of rejecting_text] by (simp_all add: n)
  have plus: "fst (trial_by_hex_plus ?C ?E ''in.md'' ''out.md'' doc_world)
                = Inr (result_dict False rejecting_text)"
    using trial_by_hex_plus_completes [OF k f s m wr]
      rejecting_text_verdicts [of rejecting_text] by simp
  from hex plus rejecting_text_verdicts [of rejecting_text] show ?thesis by blast
qed

section \<open>The empty panel\<close>





section \<open>The aggregate text of the synthesis request\<close>

lemma str_in_sublist: "str_in sub s \<longleftrightarrow> sublist sub s"
  by (induction s) (auto simp: sublist_Cons_right)

lemma delimiter_marker:
  "REVIEW_DELIMITER = ''\<newline>\<newline>'' @ REVIEW_MARKER @ ''\<newline>\<newline>''"
  by (simp add: REVIEW_DELIMITER_def REVIEW_MARKER_def)

lemma sublist_set: "sublist k s \<Longrightarrow> set k \<subseteq> set s"
  by (auto simp: sublist_def)

lemma sublist_across:
  assumes "c \<notin> set k"
  shows "sublist k (a @ c # b) \<longleftrightarrow> sublist k a \<or> sublist k b"
proof
  assume "sublist k (a @ c # b)"
  then consider "sublist k a" | "sublist k (c # b)"
    | k1 k2 where "k = k1 @ k2" "suffix k1 a" "prefix k2 (c # b)"
    by (auto simp: sublist_append)
  then show "sublist k a \<or> sublist k b"
  proof cases
    case 1
    then show ?thesis by simp
  next
    case 2
    then have "prefix k (c # b) \<or> sublist k b" by (simp add: sublist_Cons_right)
    moreover have "prefix k (c # b) \<Longrightarrow> k = []"
      using assms by (cases k) auto
    ultimately show ?thesis by auto
  next
    case 3
    show ?thesis
    proof (cases k2)
      case Nil
      with 3 have "suffix k a" by simp
      then have "sublist k a" by (rule suffix_imp_sublist)
      then show ?thesis by simp
    next
      case (Cons d k3)
      with 3 have "d = c" by simp
      with Cons 3 assms show ?thesis by simp
    qed
  qed
next
  assume "sublist k a \<or> sublist k b"
  then show "sublist k (a @ c # b)"
  proof
    assume "sublist k a"
    then show ?thesis by (simp add: sublist_append)
  next
    assume "sublist k b"
    then have "sublist k (c # b)" by (simp add: sublist_Cons_right)
    then show ?thesis by (simp add: sublist_append)
  qed
qed

lemma first_marker_position:
  assumes x: "\<not> sublist k x" and a: "a \<noteq> []" and d: "set a \<inter> set k = {}"
    and eq: "x @ a @ k @ t = p @ k @ q"
  shows "length (x @ a) \<le> length p"
proof (rule ccontr)
  assume "\<not> length (x @ a) \<le> length p"
  then have lt: "length p < length (x @ a)" by simp
  from eq have "(x @ a) @ (k @ t) = p @ (k @ q)" by simp
  then have "\<exists>u. (x @ a = p @ u \<and> u @ k @ t = k @ q)
                \<or> ((x @ a) @ u = p \<and> k @ t = u @ k @ q)"
    by (simp only: append_eq_append_conv2)
  then obtain u where
    c: "(x @ a = p @ u \<and> u @ k @ t = k @ q) \<or> ((x @ a) @ u = p \<and> k @ t = u @ k @ q)" ..
  have nc: "(x @ a) @ u \<noteq> p"
  proof
    assume "(x @ a) @ u = p"
    then have "length p = length (x @ a) + length u" by (metis length_append)
    with lt show False by simp
  qed
  from c nc have u: "x @ a = p @ u" "u @ k @ t = k @ q" by blast+
  have un: "u \<noteq> []"
  proof
    assume "u = []"
    with u(1) lt show False by simp
  qed
  from u(2) have "k @ q = u @ (k @ t)" by simp
  then have "prefix u (k @ q)" by (rule prefixI)
  moreover have "prefix k (k @ q)" by simp
  ultimately have "prefix u k \<or> prefix k u" by (rule prefix_same_cases)
  then have "prefix k u \<or> prefix u k" by blast
  then show False
  proof
    assume "prefix k u"
    then obtain u' where "u = k @ u'" by (auto simp: prefix_def)
    with u(1) have "sublist k (x @ a)" by (auto simp: sublist_def)
    then consider "sublist k x" | "sublist k a"
      | k1 k2 where "k = k1 @ k2" "suffix k1 x" "prefix k2 a"
      by (auto simp: sublist_append)
    then show False
    proof cases
      case 1
      with x show False by simp
    next
      case 2
      have "k = []"
      proof (rule ccontr)
        assume "k \<noteq> []"
        then have "hd k \<in> set k" by simp
        moreover from this sublist_set [OF 2] have "hd k \<in> set a" by (rule subsetD [rotated])
        ultimately show False using d by (simp add: disjoint_iff)
      qed
      with x show False by simp
    next
      case 3
      show False
      proof (cases k2)
        case Nil
        with 3 have "suffix k x" by simp
        then have "sublist k x" by (rule suffix_imp_sublist)
        with x show False by simp
      next
        case (Cons c k3)
        with 3 have "c \<in> set a" "c \<in> set k" by (auto simp: prefix_def)
        with d show False by (simp add: disjoint_iff)
      qed
    qed
  next
    assume "prefix u k"
    then have "set u \<subseteq> set k" by (auto simp: prefix_def)
    moreover have "last a = last u"
    proof -
      from a have "last (x @ a) = last a" by simp
      moreover from un have "last (p @ u) = last u" by simp
      ultimately show ?thesis using u(1) by simp
    qed
    moreover from a have "last a \<in> set a" by simp
    moreover from un have "last u \<in> set u" by simp
    ultimately show False using d by (auto simp: disjoint_iff)
  qed
qed

lemma delimiter_cancel:
  assumes "\<not> sublist k x" and "\<not> sublist k y" and "a \<noteq> []" and "set a \<inter> set k = {}"
    and eq: "x @ a @ k @ s = y @ a @ k @ t"
  shows "x = y \<and> s = t"
proof -
  from eq have e1: "x @ a @ k @ s = (y @ a) @ k @ t" by simp
  from eq have e2: "y @ a @ k @ t = (x @ a) @ k @ s" by simp
  from first_marker_position [OF assms(1) assms(3) assms(4) e1]
       first_marker_position [OF assms(2) assms(3) assms(4) e2]
  have "length x = length y" by simp
  with eq show ?thesis by simp
qed

lemma join_injective:
  assumes "length xs = length ys"
    and "\<forall>x\<in>set xs \<union> set ys. \<not> sublist REVIEW_MARKER x"
    and "join REVIEW_DELIMITER xs = join REVIEW_DELIMITER ys"
  shows "xs = ys"
  using assms
proof (induction xs ys rule: list_induct2)
  case Nil
  then show ?case by simp
next
  case (Cons x xs y ys)
  show ?case
  proof (cases xs)
    case Nil
    with Cons show ?thesis by simp
  next
    case xs: (Cons x' xs')
    with Cons.hyps obtain y' ys' where ys: "ys = y' # ys'" by (cases ys) auto
    let ?a = "''\<newline>\<newline>''"
    from Cons.prems(2) xs ys
    have "x @ ?a @ REVIEW_MARKER @ (?a @ join REVIEW_DELIMITER xs)
            = y @ ?a @ REVIEW_MARKER @ (?a @ join REVIEW_DELIMITER ys)"
      by (simp add: delimiter_marker)
    moreover from Cons.prems(1) have "\<not> sublist REVIEW_MARKER x" "\<not> sublist REVIEW_MARKER y"
      by simp_all
    moreover have "?a \<noteq> []" "set ?a \<inter> set REVIEW_MARKER = {}"
      by (simp_all add: REVIEW_MARKER_def)
    ultimately have "x = y \<and> ?a @ join REVIEW_DELIMITER xs = ?a @ join REVIEW_DELIMITER ys"
      by (rule delimiter_cancel [rotated 4])
    then have "x = y" "join REVIEW_DELIMITER xs = join REVIEW_DELIMITER ys" by simp_all
    with Cons.IH Cons.prems(1) show ?thesis by simp
  qed
qed

lemma str_nat_digits: "set (str_nat n) \<subseteq> set ''0123456789''"
proof (induction n rule: str_nat.induct)
  case (1 n)
  have d: "''0123456789'' ! k \<in> set ''0123456789''" if "k < 10" for k
    using that nth_mem [of k "''0123456789''"] by simp
  show ?case
  proof (cases "n < 10")
    case True
    with d [of n] show ?thesis by (subst str_nat.simps) simp
  next
    case False
    have "n mod 10 < 10" by simp
    from d [OF this] 1 [OF False] False show ?thesis
      by (subst str_nat.simps) simp
  qed
qed

lemma display_name_marker_free:
  assumes "case r_name r of None \<Rightarrow> True | Some n \<Rightarrow> \<not> sublist REVIEW_MARKER n"
  shows "\<not> sublist REVIEW_MARKER (display_name r i)"
proof (cases "r_name r")
  case None
  have "CHR ''-'' \<notin> set (''Reviewer '' @ str_nat (i + 1))"
    using str_nat_digits [of "i + 1"] by auto
  moreover have "CHR ''-'' \<in> set REVIEW_MARKER" by (simp add: REVIEW_MARKER_def)
  ultimately have "\<not> sublist REVIEW_MARKER (''Reviewer '' @ str_nat (i + 1))"
    using sublist_set by blast
  with None show ?thesis by (simp add: display_name_def)
next
  case (Some n)
  with assms show ?thesis by (simp add: display_name_def)
qed

lemma labelled_marker_free:
  assumes "\<not> sublist REVIEW_MARKER name" and "\<not> sublist REVIEW_MARKER review"
  shows "\<not> sublist REVIEW_MARKER (''### '' @ name @ ''\<newline>'' @ review)"
proof -
  have 1: "sublist REVIEW_MARKER (name @ CHR ''\<newline>'' # review)
             \<longleftrightarrow> sublist REVIEW_MARKER name \<or> sublist REVIEW_MARKER review"
    by (rule sublist_across) (simp add: REVIEW_MARKER_def)
  have 2: "sublist REVIEW_MARKER (''###'' @ CHR '' '' # (name @ CHR ''\<newline>'' # review))
             \<longleftrightarrow> sublist REVIEW_MARKER ''###''
                \<or> sublist REVIEW_MARKER (name @ CHR ''\<newline>'' # review)"
    by (rule sublist_across) (simp add: REVIEW_MARKER_def)
  have 3: "\<not> sublist REVIEW_MARKER ''###''"
    using sublist_length_le [of REVIEW_MARKER "''###''"] by (auto simp: REVIEW_MARKER_def)
  from 1 2 3 assms show ?thesis by simp
qed

lemma formatted_reviews_marker_free:
  assumes "\<forall>x\<in>set xs. \<not> sublist REVIEW_MARKER x"
    and "\<forall>r\<in>set info. case r_name r of None \<Rightarrow> True | Some n \<Rightarrow> \<not> sublist REVIEW_MARKER n"
  shows "\<forall>x\<in>set (formatted_reviews i xs info). \<not> sublist REVIEW_MARKER x"
  using assms
proof (induction i xs info rule: formatted_reviews.induct)
  case (1 i review reviews reviewer reviewer_info)
  from 1 have "\<not> sublist REVIEW_MARKER (display_name reviewer i)"
    by (intro display_name_marker_free) simp
  moreover from 1 have "\<not> sublist REVIEW_MARKER review" by simp
  ultimately have
    "\<not> sublist REVIEW_MARKER (''### '' @ display_name reviewer i @ ''\<newline>'' @ review)"
    by (rule labelled_marker_free)
  with 1 show ?case by simp
qed simp_all

lemma formatted_reviews_length:
  "length (formatted_reviews i xs info) = min (length xs) (length info)"
  by (induction i xs info rule: formatted_reviews.induct) simp_all

lemma formatted_reviews_injective:
  assumes "length xs = length ys" and "length xs \<le> length info"
    and "formatted_reviews i xs info = formatted_reviews i ys info"
  shows "xs = ys"
  using assms
proof (induction xs ys arbitrary: i info rule: list_induct2)
  case Nil
  then show ?case by simp
next
  case (Cons x xs y ys)
  from Cons.prems(1) obtain r rs where info: "info = r # rs" by (cases info) auto
  with Cons.prems have "x = y" "formatted_reviews (i + 1) xs rs = formatted_reviews (i + 1) ys rs"
    "length xs \<le> length rs"
    by simp_all
  with Cons.IH show ?case by simp
qed

text \<open>
  Claim C3, as stated, fails: the reviews are joined with a fixed delimiter and nothing
  is escaped, so two different sequences of reviews of the same length give the same
  synthesis request, in \<open>trial_by_hex.py\<close> (which adds no reviewer identity at all)
  and in \<open>trial_by_hex_plus.py\<close> (which heads each review with a name line).
\<close>

theorem serialization_not_injective_counterexample:
  "[''A\<newline>\<newline>---REVIEW---\<newline>\<newline>B'', ''C'']
     \<noteq> [''A'', ''B\<newline>\<newline>---REVIEW---\<newline>\<newline>C'']
   \<and> synthesis_messages [''A\<newline>\<newline>---REVIEW---\<newline>\<newline>B'', ''C'']
     = synthesis_messages [''A'', ''B\<newline>\<newline>---REVIEW---\<newline>\<newline>C'']
   \<and> [''A\<newline>\<newline>---REVIEW---\<newline>\<newline>### Reviewer 2\<newline>B'', ''C'']
     \<noteq> [''A'', ''B\<newline>\<newline>---REVIEW---\<newline>\<newline>### Reviewer 2\<newline>C'']
   \<and> synthesis_messages_plus
         [''A\<newline>\<newline>---REVIEW---\<newline>\<newline>### Reviewer 2\<newline>B'', ''C'']
         (take 2 HEX_REVIEWERS)
     = synthesis_messages_plus
         [''A'', ''B\<newline>\<newline>---REVIEW---\<newline>\<newline>### Reviewer 2\<newline>C'']
         (take 2 HEX_REVIEWERS)"
  by (simp add: synthesis_messages_def synthesis_messages_plus_def REVIEW_DELIMITER_def
      HEX_REVIEWERS_def display_name_def str_nat.simps)

text \<open>
  Claim C3, amended. The aggregate text is the reviews in panel order, joined with the
  delimiter; \<open>trial_by_hex_plus.py\<close> heads each review with \<open>###\<close> and the reviewer's
  name, or \<open>Reviewer i+1\<close> when it has none. For a fixed panel the aggregate determines
  the reviews when the two sequences have the same length (at most the panel's, in
  \<open>trial_by_hex_plus.py\<close>) and no review, and no reviewer name, contains the marker
  \<open>---REVIEW---\<close>.
\<close>

theorem serialization_injective_without_marker:
  "(length xs = length ys \<and>
    (\<forall>x\<in>set xs \<union> set ys. \<not> str_in REVIEW_MARKER x) \<and>
    synthesis_messages xs = synthesis_messages ys
    \<longrightarrow> xs = ys)
   \<and>
   (length xs' = length ys' \<and> length xs' \<le> length reviewer_info \<and>
    (\<forall>x\<in>set xs' \<union> set ys'. \<not> str_in REVIEW_MARKER x) \<and>
    (\<forall>r\<in>set reviewer_info.
       case r_name r of None \<Rightarrow> True | Some n \<Rightarrow> \<not> str_in REVIEW_MARKER n) \<and>
    synthesis_messages_plus xs' reviewer_info = synthesis_messages_plus ys' reviewer_info
    \<longrightarrow> xs' = ys')"
proof (intro conjI impI)
  assume "length xs = length ys \<and>
    (\<forall>x\<in>set xs \<union> set ys. \<not> str_in REVIEW_MARKER x) \<and>
    synthesis_messages xs = synthesis_messages ys"
  then show "xs = ys"
    by (intro join_injective) (simp_all add: str_in_sublist synthesis_messages_def)
next
  assume a: "length xs' = length ys' \<and> length xs' \<le> length reviewer_info \<and>
    (\<forall>x\<in>set xs' \<union> set ys'. \<not> str_in REVIEW_MARKER x) \<and>
    (\<forall>r\<in>set reviewer_info.
       case r_name r of None \<Rightarrow> True | Some n \<Rightarrow> \<not> str_in REVIEW_MARKER n) \<and>
    synthesis_messages_plus xs' reviewer_info = synthesis_messages_plus ys' reviewer_info"
  then have n: "\<forall>r\<in>set reviewer_info.
       case r_name r of None \<Rightarrow> True | Some n \<Rightarrow> \<not> sublist REVIEW_MARKER n"
    by (auto simp: str_in_sublist split: option.splits)
  from a have "\<forall>x\<in>set xs'. \<not> sublist REVIEW_MARKER x" "\<forall>x\<in>set ys'. \<not> sublist REVIEW_MARKER x"
    by (simp_all add: str_in_sublist)
  from formatted_reviews_marker_free [OF this(1) n, of 0]
       formatted_reviews_marker_free [OF this(2) n, of 0]
  have m: "\<forall>x\<in>set (formatted_reviews 0 xs' reviewer_info)
               \<union> set (formatted_reviews 0 ys' reviewer_info). \<not> sublist REVIEW_MARKER x"
    by auto
  from a have l: "length (formatted_reviews 0 xs' reviewer_info)
                    = length (formatted_reviews 0 ys' reviewer_info)"
    by (simp add: formatted_reviews_length)
  from a have j: "join REVIEW_DELIMITER (formatted_reviews 0 xs' reviewer_info)
                    = join REVIEW_DELIMITER (formatted_reviews 0 ys' reviewer_info)"
    by (simp add: synthesis_messages_plus_def)
  from join_injective [OF l m j] a show "xs' = ys'"
    by (intro formatted_reviews_injective [of xs' ys' reviewer_info 0]) simp_all
qed


theorem serialization_injective_without_marker_witness:
  "length [''sound'', ''unclear''] = length [''sound'', ''unclear'']
   \<and> \<not> str_in REVIEW_MARKER ''sound'' \<and> \<not> str_in REVIEW_MARKER ''unclear''
   \<and> \<not> str_in REVIEW_MARKER ''The Logical Consistency Reviewer''
   \<and> synthesis_messages [''sound'', ''unclear''] = synthesis_messages [''sound'', ''unclear'']
   \<and> synthesis_messages_plus [''sound'', ''unclear''] [logic_reviewer, HEX_REVIEWERS ! 1] =
       synthesis_messages_plus [''sound'', ''unclear''] [logic_reviewer, HEX_REVIEWERS ! 1]
   \<and> [''sound'', ''unclear''] = [''sound'', ''unclear'']"
  using serialization_injective_without_marker
    [of "[''sound'', ''unclear'']" "[''sound'', ''unclear'']"
        "[''sound'', ''unclear'']" "[''sound'', ''unclear'']"
        "[logic_reviewer, HEX_REVIEWERS ! 1]"]
  by (simp add: REVIEW_MARKER_def logic_reviewer_def HEX_REVIEWERS_def)

end
